theory Spec2Isabelle
  imports Complex_Main "HOL-Library.Word"
begin

section \<open>JavaScript values of the worker\<close>

text \<open>
  The worker \<^verbatim>\<open>src/index.js\<close> runs on the Workers runtime. A JavaScript string is a
  sequence of UTF-16 code units, binary data (\<^verbatim>\<open>Uint8Array\<close>) is a sequence of octets.
  String literals of the source are written with \<open>str\<close>; the few non-ASCII characters
  of its messages are given by their code units.
\<close>

type_synonym u8 = "8 word"
type_synonym u16 = "16 word"
type_synonym jsstring = "u16 list"

definition str :: "string \<Rightarrow> jsstring" where
  "str cs = map (\<lambda>c. of_nat (of_char c)) cs"

text \<open>
  A Number is an IEEE double. The worker never computes with the numbers of a JSON
  document: it tests them for truthiness and hands them on, so a number is kept as
  the value it denotes.
\<close>

datatype jsnum = Finite rat | NegZero | PosInfinity | NegInfinity | NaN

datatype jsval =
    JUndefined
  | JNull
  | JBool bool
  | JNum jsnum
  | JStr jsstring
  | JArr "jsval list"
  | JObj "(jsstring \<times> jsval) list"

text \<open>
  What the source throws. \<open>Error m\<close> is \<^verbatim>\<open>throw new Error(m)\<close> of the source itself; the
  others are raised by built-ins: reading a property of \<^verbatim>\<open>null\<close> or \<^verbatim>\<open>undefined\<close> and
  converting an object with no usable \<^verbatim>\<open>toString\<close> (\<open>TypeError\<close>), \<^verbatim>\<open>JSON.parse\<close>
  (\<open>SyntaxError\<close>), \<^verbatim>\<open>encodeURIComponent\<close> (\<open>URIError\<close>), \<^verbatim>\<open>btoa\<close>
  (\<open>InvalidCharacterError\<close>), \<^verbatim>\<open>crypto.subtle\<close> (\<open>CryptoError\<close>) and a \<^verbatim>\<open>fetch\<close> that
  rejects (\<open>NetworkError\<close>).
\<close>

datatype thrown =
    Error jsstring
  | TypeError
  | SyntaxError
  | URIError
  | InvalidCharacterError
  | CryptoError
  | NetworkError

text \<open>
  The built-ins whose results the worker only passes on are parameters of the model:
  \<^item> \<open>JSON_parse\<close>: \<^verbatim>\<open>JSON.parse\<close>, \<open>None\<close> when it throws;
  \<^item> \<open>JSON_render\<close>, \<open>JSON_render_indent\<close>: the text \<^verbatim>\<open>JSON.stringify\<close> writes for a value
    that holds no \<^verbatim>\<open>undefined\<close>, without and with indentation (the second argument is
    the \<^verbatim>\<open>space\<close> argument);
  \<^item> \<open>hmac_sha256 key data\<close>: \<^verbatim>\<open>crypto.subtle.importKey\<close> of the raw key for HMAC with
    SHA-256 followed by \<^verbatim>\<open>crypto.subtle.sign\<close>, \<open>None\<close> when either rejects;
  \<^item> \<open>Number_toString\<close>: the decimal text of a Number;
  \<^item> \<open>builtin_message\<close>: the \<^verbatim>\<open>message\<close> of an error raised by a built-in.
\<close>

record platform =
  JSON_parse :: "jsstring \<Rightarrow> jsval option"
  JSON_render :: "jsval \<Rightarrow> jsstring"
  JSON_render_indent :: "jsval \<Rightarrow> nat \<Rightarrow> jsstring"
  hmac_sha256 :: "u8 list \<Rightarrow> u8 list \<Rightarrow> u8 list option"
  Number_toString :: "jsnum \<Rightarrow> jsstring"
  builtin_message :: "thrown \<Rightarrow> jsstring"

section \<open>Text encoding\<close>

definition is_high_surrogate :: "u16 \<Rightarrow> bool" where
  "is_high_surrogate u \<longleftrightarrow> 0xD800 \<le> unat u \<and> unat u \<le> 0xDBFF"

definition is_low_surrogate :: "u16 \<Rightarrow> bool" where
  "is_low_surrogate u \<longleftrightarrow> 0xDC00 \<le> unat u \<and> unat u \<le> 0xDFFF"

text \<open>\<^verbatim>\<open>UTF16SurrogatePairToCodePoint\<close> of ECMA-262.\<close>

definition surrogate_pair :: "u16 \<Rightarrow> u16 \<Rightarrow> nat" where
  "surrogate_pair lead trail = (unat lead - 0xD800) * 0x400 + (unat trail - 0xDC00) + 0x10000"

text \<open>The UTF-8 octets of one code point (the table of RFC 3629).\<close>

definition utf8_octets :: "nat \<Rightarrow> u8 list" where
  "utf8_octets cp =
     (if cp < 0x80 then [of_nat cp]
      else if cp < 0x800 then [of_nat (0xC0 + cp div 64), of_nat (0x80 + cp mod 64)]
      else if cp < 0x10000 then
        [of_nat (0xE0 + cp div 4096), of_nat (0x80 + cp div 64 mod 64), of_nat (0x80 + cp mod 64)]
      else
        [of_nat (0xF0 + cp div 262144), of_nat (0x80 + cp div 4096 mod 64),
         of_nat (0x80 + cp div 64 mod 64), of_nat (0x80 + cp mod 64)])"

text \<open>
  The code points a string is read as by \<^verbatim>\<open>TextEncoder\<close>: a surrogate pair is one code
  point, a surrogate with no partner is replaced by U+FFFD.
\<close>

fun scalar_values :: "jsstring \<Rightarrow> nat list" where
  "scalar_values [] = []"
| "scalar_values (c # cs) =
     (if is_high_surrogate c then
        (case cs of
           [] \<Rightarrow> [0xFFFD]
         | d # ds \<Rightarrow>
             if is_low_surrogate d then surrogate_pair c d # scalar_values ds
             else 0xFFFD # scalar_values cs)
      else if is_low_surrogate c then 0xFFFD # scalar_values cs
      else unat c # scalar_values cs)"

text \<open>\<^verbatim>\<open>new TextEncoder().encode(s)\<close>\<close>

definition TextEncoder_encode :: "jsstring \<Rightarrow> u8 list" where
  "TextEncoder_encode s = concat (map utf8_octets (scalar_values s))"

section \<open>Numbers as text\<close>

text \<open>The digit characters \<^verbatim>\<open>0-9a-z\<close> used by \<^verbatim>\<open>Number.prototype.toString(radix)\<close>.\<close>

definition digit_char :: "nat \<Rightarrow> u16" where
  "digit_char d = (if d < 10 then of_nat (48 + d) else of_nat (87 + d))"

text \<open>
  \<^verbatim>\<open>n.toString(radix)\<close> for a non-negative integer \<open>n\<close> and a radix from 2 to 36 (the
  worker uses 16 on the octets of a digest, and 10 on an HTTP status in a template
  literal).
\<close>

function toString_radix :: "nat \<Rightarrow> nat \<Rightarrow> jsstring" where
  "toString_radix radix n =
     (if 2 \<le> radix \<and> radix \<le> n
      then toString_radix radix (n div radix) @ [digit_char (n mod radix)]
      else [digit_char n])"
  by pat_completeness auto
termination
  by (relation "measure snd") auto

declare toString_radix.simps [simp del]

text \<open>\<^verbatim>\<open>s.padStart(maxLength, fillString)\<close>\<close>

definition padStart :: "nat \<Rightarrow> jsstring \<Rightarrow> jsstring \<Rightarrow> jsstring" where
  "padStart maxLength fillString s =
     (if maxLength \<le> length s \<or> fillString = [] then s
      else take (maxLength - length s) (concat (replicate (maxLength - length s) fillString)) @ s)"

section \<open>Signature Verifier\<close>

text \<open>
  \<^verbatim>\<open>verifySignature(body, signature, secret)\<close>, lines 157-183. \<open>signature\<close> is what
  \<^verbatim>\<open>request.headers.get\<close> returned: \<open>None\<close> is \<^verbatim>\<open>null\<close>. \<^verbatim>\<open>!signature\<close> holds for \<^verbatim>\<open>null\<close> and
  for the empty string.
\<close>

definition verifySignature :: "platform \<Rightarrow> jsstring \<Rightarrow> jsstring option \<Rightarrow> jsstring \<Rightarrow> thrown + bool" where
  "verifySignature P body signature secret =
     (if signature = None \<or> signature = Some [] then Inr False
      else
        (case hmac_sha256 P (TextEncoder_encode secret) (TextEncoder_encode body) of
           None \<Rightarrow> Inl CryptoError
         | Some digest \<Rightarrow>
             let hash = concat (map (\<lambda>b. padStart 2 (str ''0'') (toString_radix 16 (unat b))) digest);
                 expected = str ''sha256='' @ hash
             in Inr (Some expected = signature)))"

text \<open>
  The claim's words: the lowercase hexadecimal rendering of a digest, two digits for
  each octet, most significant first.
\<close>

definition hex_digit_lower :: "nat \<Rightarrow> u16" where
  "hex_digit_lower d = str ''0123456789abcdef'' ! d"

definition hex_lower :: "u8 list \<Rightarrow> jsstring" where
  "hex_lower bs = concat (map (\<lambda>b. [hex_digit_lower (unat b div 16), hex_digit_lower (unat b mod 16)]) bs)"

definition signature_token :: "u8 list \<Rightarrow> jsstring" where
  "signature_token digest = str ''sha256='' @ hex_lower digest"

section \<open>Base64 of a text\<close>

text \<open>Results of built-ins that may throw are chained with \<open>prepend\<close> and \<open>and_then\<close>.\<close>

fun prepend :: "jsstring \<Rightarrow> thrown + jsstring \<Rightarrow> thrown + jsstring" where
  "prepend xs (Inl e) = Inl e"
| "prepend xs (Inr r) = Inr (xs @ r)"

fun and_then :: "thrown + 'a \<Rightarrow> ('a \<Rightarrow> thrown + 'b) \<Rightarrow> thrown + 'b" where
  "and_then (Inl e) f = Inl e"
| "and_then (Inr x) f = f x"

text \<open>
  \<^verbatim>\<open>encodeURIComponent\<close> on a string: the abstract operation \<^verbatim>\<open>Encode\<close> of ECMA-262 with
  the unescaped set of \<^verbatim>\<open>encodeURIComponent\<close> (the ASCII word characters and
  \<^verbatim>\<open>-.!~*'()\<close>). A code unit of the set is copied; any other code point is written as
  \<^verbatim>\<open>%XX\<close> for each of its UTF-8 octets, in uppercase; a surrogate with no partner throws
  a \<^verbatim>\<open>URIError\<close>.
\<close>

definition uriUnescaped :: jsstring where
  "uriUnescaped =
     str ''ABCDEFGHIJKLMNOPQRSTUVWXYZabcdefghijklmnopqrstuvwxyz0123456789_-.!~*()'' @ [39]"

definition upper_hex_digit :: "nat \<Rightarrow> u16" where
  "upper_hex_digit d = (if d < 10 then of_nat (48 + d) else of_nat (55 + d))"

definition percent_octet :: "u8 \<Rightarrow> jsstring" where
  "percent_octet b = [37, upper_hex_digit (unat b div 16), upper_hex_digit (unat b mod 16)]"

definition percent_octets :: "u8 list \<Rightarrow> jsstring" where
  "percent_octets bs = concat (map percent_octet bs)"

fun Encode :: "jsstring \<Rightarrow> thrown + jsstring" where
  "Encode [] = Inr []"
| "Encode (c # cs) =
     (if List.member uriUnescaped c then prepend [c] (Encode cs)
      else if is_high_surrogate c then
        (case cs of
           [] \<Rightarrow> Inl URIError
         | d # ds \<Rightarrow>
             if is_low_surrogate d
             then prepend (percent_octets (utf8_octets (surrogate_pair c d))) (Encode ds)
             else Inl URIError)
      else if is_low_surrogate c then Inl URIError
      else prepend (percent_octets (utf8_octets (unat c))) (Encode cs))"

text \<open>
  \<^verbatim>\<open>unescape\<close> (ECMA-262, Annex B): \<^verbatim>\<open>%uXXXX\<close> and \<^verbatim>\<open>%XX\<close> with hexadecimal digits become
  the code unit of that value, everything else is copied.
\<close>

definition hex_value :: "u16 \<Rightarrow> nat option" where
  "hex_value c =
     (let n = unat c in
      if 48 \<le> n \<and> n \<le> 57 then Some (n - 48)
      else if 65 \<le> n \<and> n \<le> 70 then Some (n - 55)
      else if 97 \<le> n \<and> n \<le> 102 then Some (n - 87)
      else None)"

fun parse_hex :: "nat \<Rightarrow> jsstring \<Rightarrow> nat option" where
  "parse_hex acc [] = Some acc"
| "parse_hex acc (c # cs) =
     (case hex_value c of None \<Rightarrow> None | Some d \<Rightarrow> parse_hex (16 * acc + d) cs)"

function unescape :: "jsstring \<Rightarrow> jsstring" where
  "unescape [] = []"
| "unescape (c # cs) =
     (if c = 37 then
        (if 5 \<le> length cs \<and> hd cs = 117 then
           (case parse_hex 0 (take 4 (tl cs)) of
              Some n \<Rightarrow> of_nat n # unescape (drop 5 cs)
            | None \<Rightarrow> c # unescape cs)
         else if 2 \<le> length cs then
           (case parse_hex 0 (take 2 cs) of
              Some n \<Rightarrow> of_nat n # unescape (drop 2 cs)
            | None \<Rightarrow> c # unescape cs)
         else c # unescape cs)
      else c # unescape cs)"
  by pat_completeness auto
termination
  by (relation "measure length") auto

declare unescape.simps [simp del]

text \<open>
  \<^verbatim>\<open>btoa\<close> (HTML standard): a code unit above U+00FF throws, otherwise the code units
  are octets and are written in base64 (RFC 4648, with padding).
\<close>

definition base64_char :: "nat \<Rightarrow> u16" where
  "base64_char n =
     (if n < 26 then of_nat (65 + n)
      else if n < 52 then of_nat (97 + (n - 26))
      else if n < 62 then of_nat (48 + (n - 52))
      else if n = 62 then 43
      else 47)"

fun base64 :: "u8 list \<Rightarrow> jsstring" where
  "base64 [] = []"
| "base64 [a] =
     [base64_char (unat a div 4), base64_char (unat a mod 4 * 16), 61, 61]"
| "base64 [a, b] =
     [base64_char (unat a div 4), base64_char (unat a mod 4 * 16 + unat b div 16),
      base64_char (unat b mod 16 * 4), 61]"
| "base64 (a # b # c # bs) =
     [base64_char (unat a div 4), base64_char (unat a mod 4 * 16 + unat b div 16),
      base64_char (unat b mod 16 * 4 + unat c div 64), base64_char (unat c mod 64)] @ base64 bs"

text \<open>A binary string: each octet as one code unit.\<close>

definition binary_string :: "u8 list \<Rightarrow> jsstring" where
  "binary_string bs = map (\<lambda>b. of_nat (unat b)) bs"

definition btoa :: "jsstring \<Rightarrow> thrown + jsstring" where
  "btoa s =
     (if list_ex (\<lambda>c. 255 < unat c) s then Inl InvalidCharacterError
      else Inr (base64 (map (\<lambda>c. of_nat (unat c)) s)))"

section \<open>Operations on values\<close>

text \<open>\<^verbatim>\<open>ToBoolean\<close>: what \<^verbatim>\<open>!v\<close> and \<^verbatim>\<open>a && v\<close> test.\<close>

fun ToBoolean :: "jsval \<Rightarrow> bool" where
  "ToBoolean JUndefined = False"
| "ToBoolean JNull = False"
| "ToBoolean (JBool b) = b"
| "ToBoolean (JNum (Finite r)) = (r \<noteq> 0)"
| "ToBoolean (JNum NegZero) = False"
| "ToBoolean (JNum NaN) = False"
| "ToBoolean (JNum PosInfinity) = True"
| "ToBoolean (JNum NegInfinity) = True"
| "ToBoolean (JStr s) = (s \<noteq> [])"
| "ToBoolean (JArr xs) = True"
| "ToBoolean (JObj ps) = True"

text \<open>
  \<^verbatim>\<open>v.name\<close> for the property names the worker reads (\<^verbatim>\<open>content\<close>, \<^verbatim>\<open>sha\<close>, \<^verbatim>\<open>commit\<close>,
  \<^verbatim>\<open>action\<close>, \<^verbatim>\<open>workflow_run\<close>, \<^verbatim>\<open>name\<close>, \<^verbatim>\<open>status\<close>, \<^verbatim>\<open>conclusion\<close>, \<^verbatim>\<open>head_sha\<close>), none of
  which a prototype of a parsed JSON value defines: an object gives its own property
  or \<^verbatim>\<open>undefined\<close>, \<^verbatim>\<open>null\<close> and \<^verbatim>\<open>undefined\<close> throw a \<^verbatim>\<open>TypeError\<close>, every other value gives
  \<^verbatim>\<open>undefined\<close>.
\<close>

fun get_prop :: "jsval \<Rightarrow> jsstring \<Rightarrow> thrown + jsval" where
  "get_prop JUndefined name = Inl TypeError"
| "get_prop JNull name = Inl TypeError"
| "get_prop (JObj ps) name = Inr (case map_of ps name of None \<Rightarrow> JUndefined | Some v \<Rightarrow> v)"
| "get_prop (JBool b) name = Inr JUndefined"
| "get_prop (JNum n) name = Inr JUndefined"
| "get_prop (JStr s) name = Inr JUndefined"
| "get_prop (JArr xs) name = Inr JUndefined"

text \<open>The value of \<^verbatim>\<open>v.name\<close> when the read does not throw.\<close>

definition property :: "jsval \<Rightarrow> jsstring \<Rightarrow> jsval" where
  "property v name = (case get_prop v name of Inl e \<Rightarrow> JUndefined | Inr x \<Rightarrow> x)"

text \<open>\<^verbatim>\<open>v?.name\<close>\<close>

definition get_prop_optional :: "jsval \<Rightarrow> jsstring \<Rightarrow> thrown + jsval" where
  "get_prop_optional v name = (if v = JUndefined \<or> v = JNull then Inr JUndefined else get_prop v name)"

text \<open>
  \<^verbatim>\<open>ToString\<close> of a parsed JSON value: an array joins its elements with commas
  (\<^verbatim>\<open>null\<close> and \<^verbatim>\<open>undefined\<close> elements as the empty string), an object is
  \<^verbatim>\<open>[object Object]\<close> unless an own property hides \<^verbatim>\<open>Object.prototype.toString\<close>, in which
  case no conversion is found and a \<^verbatim>\<open>TypeError\<close> is thrown.
\<close>

fun join_comma :: "(thrown + jsstring) list \<Rightarrow> thrown + jsstring" where
  "join_comma [] = Inr []"
| "join_comma [x] = x"
| "join_comma (x # y # ys) = and_then x (\<lambda>s. prepend (s @ [44]) (join_comma (y # ys)))"

fun ToString :: "platform \<Rightarrow> jsval \<Rightarrow> thrown + jsstring" where
  "ToString P JUndefined = Inr (str ''undefined'')"
| "ToString P JNull = Inr (str ''null'')"
| "ToString P (JBool b) = Inr (if b then str ''true'' else str ''false'')"
| "ToString P (JNum n) = Inr (Number_toString P n)"
| "ToString P (JStr s) = Inr s"
| "ToString P (JArr xs) =
     join_comma (map (\<lambda>x. if x = JUndefined \<or> x = JNull then Inr [] else ToString P x) xs)"
| "ToString P (JObj ps) =
     (if map_of ps (str ''toString'') \<noteq> None then Inl TypeError else Inr (str ''[object Object]''))"

text \<open>\<^verbatim>\<open>encodeURIComponent(v)\<close> converts its argument to a string first.\<close>

definition encodeURIComponent :: "platform \<Rightarrow> jsval \<Rightarrow> thrown + jsstring" where
  "encodeURIComponent P v = and_then (ToString P v) Encode"

text \<open>\<^verbatim>\<open>base64Encode(str)\<close>, lines 188-190.\<close>

definition base64Encode :: "platform \<Rightarrow> jsval \<Rightarrow> thrown + jsstring" where
  "base64Encode P v = and_then (encodeURIComponent P v) (\<lambda>escaped. btoa (unescape escaped))"

text \<open>
  \<^verbatim>\<open>JSON.stringify\<close>: a property whose value is \<^verbatim>\<open>undefined\<close> is left out of an object, an
  \<^verbatim>\<open>undefined\<close> element of an array is written as \<^verbatim>\<open>null\<close>, and \<^verbatim>\<open>undefined\<close> itself has no
  text. The text of what remains is the platform's.
\<close>

fun prune :: "jsval \<Rightarrow> jsval"
  and prune_props :: "(jsstring \<times> jsval) list \<Rightarrow> (jsstring \<times> jsval) list"
  and prune_items :: "jsval list \<Rightarrow> jsval list" where
  "prune (JObj ps) = JObj (prune_props ps)"
| "prune (JArr xs) = JArr (prune_items xs)"
| "prune JUndefined = JUndefined"
| "prune JNull = JNull"
| "prune (JBool b) = JBool b"
| "prune (JNum n) = JNum n"
| "prune (JStr s) = JStr s"
| "prune_props [] = []"
| "prune_props ((k, v) # ps) =
     (if v = JUndefined then prune_props ps else (k, prune v) # prune_props ps)"
| "prune_items [] = []"
| "prune_items (x # xs) = (if x = JUndefined then JNull else prune x) # prune_items xs"

definition JSON_stringify :: "platform \<Rightarrow> jsval \<Rightarrow> jsstring option" where
  "JSON_stringify P v = (if v = JUndefined then None else Some (JSON_render P (prune v)))"

definition JSON_stringify_indent :: "platform \<Rightarrow> jsval \<Rightarrow> nat \<Rightarrow> jsstring option" where
  "JSON_stringify_indent P v space =
     (if v = JUndefined then None else Some (JSON_render_indent P (prune v) space))"

section \<open>Requests, responses and effects\<close>

text \<open>The bindings of the deployment (\<^verbatim>\<open>env\<close>), all strings.\<close>

record env =
  GITHUB_OWNER :: jsstring
  GITHUB_REPO :: jsstring
  FILE_PATH :: jsstring
  BRANCH :: jsstring
  GH_TOKEN :: jsstring
  WEBHOOK_SECRET :: jsstring

text \<open>
  What the worker reads of an incoming request: \<^verbatim>\<open>new URL(request.url).pathname\<close>,
  \<^verbatim>\<open>request.method\<close>, \<^verbatim>\<open>request.headers.get(name)\<close> (\<open>None\<close> is \<^verbatim>\<open>null\<close>) and
  \<^verbatim>\<open>await request.text()\<close>.
\<close>

record request =
  req_pathname :: jsstring
  req_method :: jsstring
  req_header :: "jsstring \<Rightarrow> jsstring option"
  req_text :: jsstring

text \<open>A \<^verbatim>\<open>Response\<close> the worker returns.\<close>

record response =
  status :: nat
  headers :: "(jsstring \<times> jsstring) list"
  body :: "jsstring option"

text \<open>
  An outgoing \<^verbatim>\<open>fetch(url, init)\<close> and what comes back from the remote API: its status
  and \<^verbatim>\<open>await response.text()\<close>.
\<close>

record call =
  call_url :: jsstring
  call_method :: "jsstring option"
  call_headers :: "(jsstring \<times> jsstring) list"
  call_body :: "jsstring option"

record reply =
  reply_status :: nat
  reply_text :: jsstring

definition reply_ok :: "reply \<Rightarrow> bool" where
  "reply_ok r \<longleftrightarrow> 200 \<le> reply_status r \<and> reply_status r \<le> 299"

text \<open>
  The effects of a run are kept in a world: the state of the remote service, and the
  log of every \<^verbatim>\<open>JSON.parse\<close> and every \<^verbatim>\<open>fetch\<close> the run made, in order. The remote
  service is a function from a call and its state to a reply (\<open>None\<close> when the
  \<^verbatim>\<open>fetch\<close> rejects) and its next state.
\<close>

datatype event = Parsed jsstring | Fetched call

record 'r world =
  remote :: 'r
  events :: "event list"

type_synonym 'r network = "call \<Rightarrow> 'r \<Rightarrow> reply option \<times> 'r"

type_synonym ('r, 'a) io = "'r world \<Rightarrow> (thrown + 'a) \<times> 'r world"

definition io_of :: "thrown + 'a \<Rightarrow> ('r, 'a) io" where
  "io_of x w = (x, w)"

definition io_bind :: "('r, 'a) io \<Rightarrow> ('a \<Rightarrow> ('r, 'b) io) \<Rightarrow> ('r, 'b) io" where
  "io_bind m f w = (case m w of (Inl e, w') \<Rightarrow> (Inl e, w') | (Inr x, w') \<Rightarrow> f x w')"

definition JSON_parse_io :: "platform \<Rightarrow> jsstring \<Rightarrow> ('r, jsval) io" where
  "JSON_parse_io P t w =
     ((case JSON_parse P t of None \<Rightarrow> Inl SyntaxError | Some v \<Rightarrow> Inr v),
      w\<lparr>events := events w @ [Parsed t]\<rparr>)"

definition fetch :: "'r network \<Rightarrow> call \<Rightarrow> ('r, reply) io" where
  "fetch net c w =
     (case net c (remote w) of
        (r, remote') \<Rightarrow>
          ((case r of None \<Rightarrow> Inl NetworkError | Some response \<Rightarrow> Inr response),
           \<lparr>remote = remote', events = events w @ [Fetched c]\<rparr>))"

text \<open>\<^verbatim>\<open>jsonResponse(obj, status = 200)\<close>, lines 195-200, and \<^verbatim>\<open>new Response(text)\<close>.\<close>

definition jsonResponse :: "platform \<Rightarrow> jsval \<Rightarrow> nat \<Rightarrow> response" where
  "jsonResponse P obj st =
     \<lparr>status = st,
      headers = [(str ''Content-Type'', str ''application/json'')],
      body = JSON_stringify P obj\<rparr>"

definition textResponse :: "jsstring \<Rightarrow> response" where
  "textResponse t =
     \<lparr>status = 200,
      headers = [(str ''content-type'', str ''text/plain;charset=UTF-8'')],
      body = Some t\<rparr>"

section \<open>Remote Content Client\<close>

text \<open>The \<^verbatim>\<open>options\<close> argument of \<^verbatim>\<open>safeGitHubRequest\<close>; \<open>None\<close> is a property not given.\<close>

record options =
  opt_method :: "jsstring option"
  opt_headers :: "(jsstring \<times> jsstring) list option"
  opt_body :: "jsstring option"

definition no_options :: options where
  "no_options = \<lparr>opt_method = None, opt_headers = None, opt_body = None\<rparr>"

text \<open>Object spread: a property given again keeps its place and takes the new value.\<close>

fun put_prop :: "jsstring \<Rightarrow> 'a \<Rightarrow> (jsstring \<times> 'a) list \<Rightarrow> (jsstring \<times> 'a) list" where
  "put_prop k v [] = [(k, v)]"
| "put_prop k v ((k', v') # ps) = (if k = k' then (k, v) # ps else (k', v') # put_prop k v ps)"

definition spread :: "(jsstring \<times> 'a) list \<Rightarrow> (jsstring \<times> 'a) list \<Rightarrow> (jsstring \<times> 'a) list" where
  "spread base extra = fold (\<lambda>(k, v). put_prop k v) extra base"

text \<open>The two messages of \<^verbatim>\<open>safeGitHubRequest\<close>, with the code units of their characters.\<close>

definition nonJSON_message :: "jsstring \<Rightarrow> jsstring" where
  "nonJSON_message t =
     str ''GitHub '' @ [0x8FD4, 0x56DE, 0x975E] @ str '' JSON '' @ [0x54CD, 0x5E94] @ str '':''
       @ [10] @ t"

definition apiError_message :: "platform \<Rightarrow> nat \<Rightarrow> jsval \<Rightarrow> jsstring" where
  "apiError_message P st data =
     str ''GitHub API '' @ [0x9519, 0x8BEF] @ str '' '' @ toString_radix 10 st @ str '':'' @ [10]
       @ (case JSON_stringify_indent P data 2 of None \<Rightarrow> str ''undefined'' | Some t \<Rightarrow> t)"

text \<open>
  The \<^verbatim>\<open>init\<close> object of the \<^verbatim>\<open>fetch\<close> in \<^verbatim>\<open>safeGitHubRequest\<close>, lines 112-121: the options,
  with the headers replaced by the four fixed headers overridden by the caller's.
\<close>

definition request_init :: "env \<Rightarrow> jsstring \<Rightarrow> options \<Rightarrow> call" where
  "request_init env url opts =
     \<lparr>call_url = url,
      call_method = opt_method opts,
      call_headers =
        spread
          [(str ''Authorization'', str ''Bearer '' @ GH_TOKEN env),
           (str ''Accept'', str ''application/vnd.github+json''),
           (str ''Content-Type'', str ''application/json''),
           (str ''User-Agent'', str ''cloudflare-worker'')]
          (case opt_headers opts of None \<Rightarrow> [] | Some hs \<Rightarrow> hs),
      call_body = opt_body opts\<rparr>"

text \<open>\<^verbatim>\<open>safeGitHubRequest(url, env, options = {})\<close>, lines 111-139.\<close>

definition safeGitHubRequest ::
  "platform \<Rightarrow> 'r network \<Rightarrow> jsstring \<Rightarrow> env \<Rightarrow> options \<Rightarrow> ('r, jsval) io" where
  "safeGitHubRequest P net url env opts =
     io_bind (fetch net (request_init env url opts))
       (\<lambda>response w.
          let t = reply_text response in
          (case JSON_parse_io P t w of
             (Inl e, w') \<Rightarrow> (Inl (Error (nonJSON_message t)), w')
           | (Inr data, w') \<Rightarrow>
               if \<not> reply_ok response
               then (Inl (Error (apiError_message P (reply_status response) data)), w')
               else (Inr data, w')))"

text \<open>\<^verbatim>\<open>safeParseRequestJSON(request)\<close>, lines 144-152.\<close>

definition safeParseRequestJSON :: "platform \<Rightarrow> request \<Rightarrow> ('r, jsval) io" where
  "safeParseRequestJSON P request w =
     (let t = req_text request in
      case JSON_parse_io P t w of
        (Inl e, w') \<Rightarrow> (Inl (Error (str ''Invalid JSON body'')), w')
      | (Inr v, w') \<Rightarrow> (Inr v, w'))"

section \<open>Update Flow\<close>

definition read_url :: "env \<Rightarrow> jsstring" where
  "read_url env =
     str ''https://api.github.com/repos/'' @ GITHUB_OWNER env @ str ''/'' @ GITHUB_REPO env
       @ str ''/contents/'' @ FILE_PATH env @ str ''?ref='' @ BRANCH env"

definition write_url :: "env \<Rightarrow> jsstring" where
  "write_url env =
     str ''https://api.github.com/repos/'' @ GITHUB_OWNER env @ str ''/'' @ GITHUB_REPO env
       @ str ''/contents/'' @ FILE_PATH env"

text \<open>The object the write sends, and the two objects the flow answers with.\<close>

definition write_object :: "env \<Rightarrow> jsstring \<Rightarrow> jsval \<Rightarrow> jsval" where
  "write_object env encoded sha =
     JObj [(str ''message'', JStr (str ''auto update images.txt'')),
           (str ''content'', JStr encoded),
           (str ''sha'', sha),
           (str ''branch'', JStr (BRANCH env))]"

definition error_object :: "jsstring \<Rightarrow> jsval" where
  "error_object m = JObj [(str ''error'', JStr m)]"

definition update_object :: "jsval \<Rightarrow> jsval" where
  "update_object commit_sha =
     JObj [(str ''message'', JStr (str ''Update triggered'')), (str ''commit'', commit_sha)]"

definition write_options :: "platform \<Rightarrow> env \<Rightarrow> jsstring \<Rightarrow> jsval \<Rightarrow> options" where
  "write_options P env encoded sha =
     \<lparr>opt_method = Some (str ''PUT''),
      opt_headers = None,
      opt_body = JSON_stringify P (write_object env encoded sha)\<rparr>"

text \<open>
  \<^verbatim>\<open>handleUpdate(request, env)\<close>, lines 27-66. The source reads \<^verbatim>\<open>body.content\<close> and
  \<^verbatim>\<open>fileData.sha\<close> twice; a read has no effect, so each is read once here.
\<close>

definition handleUpdate :: "platform \<Rightarrow> 'r network \<Rightarrow> request \<Rightarrow> env \<Rightarrow> ('r, response) io" where
  "handleUpdate P net request env =
     (if req_method request \<noteq> str ''POST''
      then io_of (Inr (jsonResponse P (error_object (str ''Method not allowed'')) 405))
      else
        io_bind (safeParseRequestJSON P request) (\<lambda>body.
        io_bind (io_of (get_prop body (str ''content''))) (\<lambda>content.
        if \<not> ToBoolean content
        then io_of (Inr (jsonResponse P (error_object (str ''Missing content'')) 400))
        else
          io_bind (safeGitHubRequest P net (read_url env) env no_options) (\<lambda>fileData.
          io_bind (io_of (get_prop fileData (str ''sha''))) (\<lambda>sha.
          if \<not> ToBoolean sha
          then io_of (Inl (Error (str ''File not found or no permission'')))
          else
            io_bind (io_of (base64Encode P content)) (\<lambda>encoded.
            io_bind (safeGitHubRequest P net (write_url env) env (write_options P env encoded sha))
              (\<lambda>updateResult.
            io_bind (io_of (get_prop updateResult (str ''commit''))) (\<lambda>commit.
            io_bind (io_of (get_prop_optional commit (str ''sha''))) (\<lambda>commit_sha.
            io_of (Inr (jsonResponse P (update_object commit_sha) 200)))))))))))"

section \<open>Webhook Flow\<close>

definition summary_object :: "jsval \<Rightarrow> jsval \<Rightarrow> jsval \<Rightarrow> jsval \<Rightarrow> jsval" where
  "summary_object name st conclusion head_sha =
     JObj [(str ''workflow'', name), (str ''status'', st),
           (str ''conclusion'', conclusion), (str ''commit'', head_sha)]"

definition ignored_object :: jsval where
  "ignored_object = JObj [(str ''message'', JStr (str ''Ignored event''))]"

text \<open>
  \<^verbatim>\<open>handleWebhook(request, env)\<close>, lines 71-106. The condition
  \<^verbatim>\<open>payload.action === "completed" && payload.workflow_run\<close> is \<^verbatim>\<open>false\<close> when the comparison
  fails and the value of \<^verbatim>\<open>payload.workflow_run\<close> otherwise.
\<close>

definition handleWebhook :: "platform \<Rightarrow> request \<Rightarrow> env \<Rightarrow> ('r, response) io" where
  "handleWebhook P request env =
     (if req_method request \<noteq> str ''POST'' then io_of (Inr (textResponse (str ''OK'')))
      else
        let signature = req_header request (str ''x-hub-signature-256'');
            rawBody = req_text request
        in
        io_bind (io_of (verifySignature P rawBody signature (WEBHOOK_SECRET env))) (\<lambda>valid.
        if \<not> valid
        then io_of (Inr (jsonResponse P (error_object (str ''Invalid signature'')) 401))
        else
          io_bind (JSON_parse_io P rawBody) (\<lambda>payload.
          io_bind (io_of (get_prop payload (str ''action''))) (\<lambda>action.
          io_bind
            (io_of (if action = JStr (str ''completed'')
                    then get_prop payload (str ''workflow_run'')
                    else Inr (JBool False)))
            (\<lambda>condition.
          if ToBoolean condition
          then
            io_bind (io_of (get_prop payload (str ''workflow_run''))) (\<lambda>run.
            io_bind (io_of (get_prop run (str ''name''))) (\<lambda>name.
            io_bind (io_of (get_prop run (str ''status''))) (\<lambda>st.
            io_bind (io_of (get_prop run (str ''conclusion''))) (\<lambda>conclusion.
            io_bind (io_of (get_prop run (str ''head_sha''))) (\<lambda>head_sha.
            io_of (Inr (jsonResponse P (summary_object name st conclusion head_sha) 200)))))))
          else io_of (Inr (jsonResponse P ignored_object 200)))))))"

section \<open>Dispatch\<close>

text \<open>\<^verbatim>\<open>err.message\<close> of what was thrown.\<close>

fun message :: "platform \<Rightarrow> thrown \<Rightarrow> jsstring" where
  "message P (Error m) = m"
| "message P e = builtin_message P e"

text \<open>The exported \<^verbatim>\<open>fetch(request, env)\<close> handler, lines 2-21.\<close>

definition worker_fetch ::
  "platform \<Rightarrow> 'r network \<Rightarrow> request \<Rightarrow> env \<Rightarrow> 'r world \<Rightarrow> response \<times> 'r world" where
  "worker_fetch P net request env w =
     (case
        (if req_pathname request = str ''/update'' then handleUpdate P net request env w
         else if req_pathname request = str ''/webhook'' then handleWebhook P request env w
         else (Inr (jsonResponse P (error_object (str ''Not Found'')) 404), w))
      of
        (Inr r, w') \<Rightarrow> (r, w')
      | (Inl err, w') \<Rightarrow>
          (jsonResponse P
             (error_object (if message P err \<noteq> [] then message P err else str ''Internal Error''))
             500,
           w'))"

section \<open>Reading base64 text back\<close>

text \<open>
  The round trip of the encoded content is stated against a reader that is not part
  of the worker: it decodes base64 (RFC 4648, padded), reads the octets as UTF-8
  (RFC 3629: no overlong forms, no surrogates, nothing above U+10FFFF) and gives the
  text as a JavaScript string. A text is well formed when every surrogate is paired
  (\<^verbatim>\<open>String.prototype.isWellFormed\<close>); these are the Unicode texts.
\<close>

fun well_formed :: "jsstring \<Rightarrow> bool" where
  "well_formed [] = True"
| "well_formed (c # cs) =
     (if is_high_surrogate c then
        (case cs of [] \<Rightarrow> False | d # ds \<Rightarrow> is_low_surrogate d \<and> well_formed ds)
      else \<not> is_low_surrogate c \<and> well_formed cs)"

definition base64_index :: "u16 \<Rightarrow> nat option" where
  "base64_index c =
     (if 65 \<le> unat c \<and> unat c \<le> 90 then Some (unat c - 65)
      else if 97 \<le> unat c \<and> unat c \<le> 122 then Some (unat c - 71)
      else if 48 \<le> unat c \<and> unat c \<le> 57 then Some (unat c + 4)
      else if unat c = 43 then Some 62
      else if unat c = 47 then Some 63
      else None)"

fun base64_decode :: "jsstring \<Rightarrow> u8 list option" where
  "base64_decode [] = Some []"
| "base64_decode (a # b # c # d # rest) =
     (case (base64_index a, base64_index b) of
        (Some x, Some y) \<Rightarrow>
          if c = 61 \<and> d = 61 \<and> rest = [] then Some [of_nat (x * 4 + y div 16)]
          else
            (case base64_index c of
               None \<Rightarrow> None
             | Some z \<Rightarrow>
                 if d = 61 \<and> rest = []
                 then Some [of_nat (x * 4 + y div 16), of_nat (y mod 16 * 16 + z div 4)]
                 else
                   (case base64_index d of
                      None \<Rightarrow> None
                    | Some t \<Rightarrow>
                        map_option
                          (\<lambda>bs. of_nat (x * 4 + y div 16) # of_nat (y mod 16 * 16 + z div 4)
                                  # of_nat (z mod 4 * 64 + t) # bs)
                          (base64_decode rest)))
      | _ \<Rightarrow> None)"
| "base64_decode _ = None"

definition continuation :: "u8 \<Rightarrow> bool" where
  "continuation b \<longleftrightarrow> 0x80 \<le> unat b \<and> unat b < 0xC0"

definition scalar_value :: "nat \<Rightarrow> bool" where
  "scalar_value cp \<longleftrightarrow> cp \<le> 0x10FFFF \<and> \<not> (0xD800 \<le> cp \<and> cp \<le> 0xDFFF)"

fun utf8_decode :: "u8 list \<Rightarrow> nat list option" where
  "utf8_decode [] = Some []"
| "utf8_decode (b # bs) =
     (if unat b < 0x80 then map_option ((#) (unat b)) (utf8_decode bs)
      else if 0xC0 \<le> unat b \<and> unat b < 0xE0 then
        (case bs of
           b1 # r \<Rightarrow>
             if continuation b1 \<and> 0x80 \<le> (unat b - 0xC0) * 64 + (unat b1 - 0x80)
             then map_option ((#) ((unat b - 0xC0) * 64 + (unat b1 - 0x80))) (utf8_decode r)
             else None
         | _ \<Rightarrow> None)
      else if 0xE0 \<le> unat b \<and> unat b < 0xF0 then
        (case bs of
           b1 # b2 # r \<Rightarrow>
             if continuation b1 \<and> continuation b2
                \<and> 0x800 \<le> (unat b - 0xE0) * 4096 + (unat b1 - 0x80) * 64 + (unat b2 - 0x80)
                \<and> scalar_value ((unat b - 0xE0) * 4096 + (unat b1 - 0x80) * 64 + (unat b2 - 0x80))
             then map_option
                    ((#) ((unat b - 0xE0) * 4096 + (unat b1 - 0x80) * 64 + (unat b2 - 0x80)))
                    (utf8_decode r)
             else None
         | _ \<Rightarrow> None)
      else if 0xF0 \<le> unat b \<and> unat b < 0xF8 then
        (case bs of
           b1 # b2 # b3 # r \<Rightarrow>
             if continuation b1 \<and> continuation b2 \<and> continuation b3
                \<and> 0x10000 \<le> (unat b - 0xF0) * 262144 + (unat b1 - 0x80) * 4096
                                + (unat b2 - 0x80) * 64 + (unat b3 - 0x80)
                \<and> scalar_value ((unat b - 0xF0) * 262144 + (unat b1 - 0x80) * 4096
                                + (unat b2 - 0x80) * 64 + (unat b3 - 0x80))
             then map_option
                    ((#) ((unat b - 0xF0) * 262144 + (unat b1 - 0x80) * 4096
                           + (unat b2 - 0x80) * 64 + (unat b3 - 0x80)))
                    (utf8_decode r)
             else None
         | _ \<Rightarrow> None)
      else None)"

definition utf16_units :: "nat \<Rightarrow> jsstring" where
  "utf16_units cp =
     (if cp < 0x10000 then [of_nat cp]
      else [of_nat (0xD800 + (cp - 0x10000) div 0x400), of_nat (0xDC00 + (cp - 0x10000) mod 0x400)])"

definition decode_base64_utf8 :: "jsstring \<Rightarrow> jsstring option" where
  "decode_base64_utf8 t =
     (case base64_decode t of
        None \<Rightarrow> None
      | Some bs \<Rightarrow> map_option (\<lambda>cps. concat (map utf16_units cps)) (utf8_decode bs))"

section \<open>Reading a decimal numeral back\<close>

text \<open>The number that a string of decimal digits denotes.\<close>

definition decimal_value :: "jsstring \<Rightarrow> nat" where
  "decimal_value s = foldl (\<lambda>acc c. 10 * acc + (unat c - 48)) 0 s"

section \<open>A platform and a remote for the examples\<close>

text \<open>
  The examples run on a small platform. It knows the JSON documents listed here, each
  with the value it parses to; any other text is not JSON for it, and a value is
  written as the first document that parses to it. Its keyed digest stands in
  for HMAC-SHA-256: two octets, the sum of the key and the sum of the data, and like
  the real one it rejects an empty key.
\<close>

definition test_documents :: "(jsstring \<times> jsval) list" where
  \<open>test_documents =
     [(str ''{}'', JObj []),
      (str ''null'', JNull),
      (str ''{"content":"hello"}'', JObj [(str ''content'', JStr (str ''hello''))]),
      (str ''{"content":0}'', JObj [(str ''content'', JNum (Finite 0))]),
      (str ''{"sha":"abc"}'', JObj [(str ''sha'', JStr (str ''abc''))]),
      (str ''{"commit":{"sha":"def"}}'',
         JObj [(str ''commit'', JObj [(str ''sha'', JStr (str ''def''))])]),
      (str ''{"message":"Not Found"}'', JObj [(str ''message'', JStr (str ''Not Found''))]),
      (str ''{"action":"completed","workflow_run":{"name":"CI","status":"completed","conclusion":"success","head_sha":"xyz"}}'',
         JObj [(str ''action'', JStr (str ''completed'')),
               (str ''workflow_run'',
                  JObj [(str ''name'', JStr (str ''CI'')),
                        (str ''status'', JStr (str ''completed'')),
                        (str ''conclusion'', JStr (str ''success'')),
                        (str ''head_sha'', JStr (str ''xyz''))])]),
      (str ''{"action":"completed","workflow_run":1}'',
         JObj [(str ''action'', JStr (str ''completed'')), (str ''workflow_run'', JNum (Finite 1))]),
      (str ''{"action":"requested"}'', JObj [(str ''action'', JStr (str ''requested''))]),
      (str ''{"error":"Invalid signature"}'', JObj [(str ''error'', JStr (str ''Invalid signature''))]),
      (str ''{"error":"Missing content"}'', JObj [(str ''error'', JStr (str ''Missing content''))]),
      (str ''{"error":"Invalid JSON body"}'', JObj [(str ''error'', JStr (str ''Invalid JSON body''))]),
      (str ''{"error":"File not found or no permission"}'',
         JObj [(str ''error'', JStr (str ''File not found or no permission''))]),
      (str ''{"message":"Ignored event"}'', JObj [(str ''message'', JStr (str ''Ignored event''))]),
      (str ''{"message":"Update triggered","commit":"def"}'',
         JObj [(str ''message'', JStr (str ''Update triggered'')), (str ''commit'', JStr (str ''def''))]),
      (str ''{"message":"Update triggered"}'', JObj [(str ''message'', JStr (str ''Update triggered''))]),
      (str ''{"workflow":"CI","status":"completed","conclusion":"success","commit":"xyz"}'',
         JObj [(str ''workflow'', JStr (str ''CI'')),
               (str ''status'', JStr (str ''completed'')),
               (str ''conclusion'', JStr (str ''success'')),
               (str ''commit'', JStr (str ''xyz''))]),
      (str ''{"message":"auto update images.txt","content":"aGVsbG8=","sha":"abc","branch":"main"}'',
         JObj [(str ''message'', JStr (str ''auto update images.txt'')),
               (str ''content'', JStr (str ''aGVsbG8='')),
               (str ''sha'', JStr (str ''abc'')),
               (str ''branch'', JStr (str ''main''))])]\<close>

definition test_render :: "jsval \<Rightarrow> jsstring" where
  "test_render v =
     (case find (\<lambda>d. snd d = v) test_documents of None \<Rightarrow> str ''?'' | Some d \<Rightarrow> fst d)"

definition test_hmac :: "u8 list \<Rightarrow> u8 list \<Rightarrow> u8 list option" where
  "test_hmac key data = (if key = [] then None else Some [sum_list key, sum_list data])"

definition test_platform :: platform where
  "test_platform =
     \<lparr>JSON_parse = map_of test_documents,
      JSON_render = test_render,
      JSON_render_indent = (\<lambda>v space. test_render v),
      hmac_sha256 = test_hmac,
      Number_toString = (\<lambda>n. str ''0''),
      builtin_message = (\<lambda>e. str ''Cannot read properties of null'')\<rparr>"

definition test_env :: env where
  "test_env =
     \<lparr>GITHUB_OWNER = str ''o'', GITHUB_REPO = str ''r'', FILE_PATH = str ''images.txt'',
      BRANCH = str ''main'', GH_TOKEN = str ''t'', WEBHOOK_SECRET = str ''k''\<rparr>"

text \<open>
  The test remote answers every \<^verbatim>\<open>PUT\<close> with one reply and every other call with
  another, and counts the writes it has received.
\<close>

definition test_remote :: "reply option \<Rightarrow> reply option \<Rightarrow> nat network" where
  "test_remote on_read on_write c n =
     (if call_method c = Some (str ''PUT'') then (on_write, Suc n) else (on_read, n))"

definition test_world :: "nat world" where
  "test_world = \<lparr>remote = 0, events = []\<rparr>"

definition test_request :: "jsstring \<Rightarrow> jsstring \<Rightarrow> jsstring option \<Rightarrow> jsstring \<Rightarrow> request" where
  "test_request m path signature t =
     \<lparr>req_pathname = path,
      req_method = m,
      req_header = (\<lambda>name. if name = str ''x-hub-signature-256'' then signature else None),
      req_text = t\<rparr>"

section \<open>Properties of the Signature Verifier\<close>

lemma hex_digit_lower_eq: "d < 16 \<Longrightarrow> hex_digit_lower d = digit_char d"
proof -
  assume "d < 16"
  then have "d \<in> set [0..<16]" by simp
  then show ?thesis
    unfolding hex_digit_lower_def digit_char_def str_def
    by (simp add: upt_rec) (elim disjE; simp)
qed

lemma toString_16_octet:
  assumes "n < 256"
  shows "padStart 2 (str ''0'') (toString_radix 16 n) = [digit_char (n div 16), digit_char (n mod 16)]"
proof (cases "n < 16")
  case True
  then show ?thesis
    by (simp add: toString_radix.simps [of 16 n] padStart_def str_def digit_char_def)
next
  case False
  with assms have "n div 16 < 16" by simp
  with False show ?thesis
    by (simp add: toString_radix.simps [of 16 n] toString_radix.simps [of 16 "n div 16"] padStart_def)
qed

lemma hash_is_hex_lower:
  "concat (map (\<lambda>b. padStart 2 (str ''0'') (toString_radix 16 (unat b))) (digest :: u8 list))
     = hex_lower digest"
proof -
  have "padStart 2 (str ''0'') (toString_radix 16 (unat b))
          = [hex_digit_lower (unat b div 16), hex_digit_lower (unat b mod 16)]" for b :: u8
  proof -
    have b: "unat b < 256" using unsigned_less [of b] by simp
    then have "unat b div 16 < 16" by simp
    then show ?thesis
      using toString_16_octet [OF b] by (simp add: hex_digit_lower_eq)
  qed
  then show ?thesis by (simp add: hex_lower_def)
qed

lemma signature_token_nonempty: "signature_token d \<noteq> []"
  by (simp add: signature_token_def str_def)

lemma verifySignature_present:
  assumes "hmac_sha256 P (TextEncoder_encode k) (TextEncoder_encode b) = Some d"
  shows "verifySignature P b t k = Inr (t = Some (signature_token d))"
proof (cases t)
  case None
  then show ?thesis by (simp add: verifySignature_def)
next
  case (Some s)
  show ?thesis
  proof (cases "s = []")
    case True
    with Some signature_token_nonempty [of d] show ?thesis
      by (simp add: verifySignature_def)
  next
    case False
    with Some assms show ?thesis
      by (auto simp: verifySignature_def hash_is_hex_lower signature_token_def)
  qed
qed




section \<open>Properties of the text encodings\<close>

lemma unat_u8_lt: "unat (b :: u8) < 256"
  using unsigned_less [of b] by simp

lemma unat_u16_lt: "unat (c :: u16) < 65536"
  using unsigned_less [of c] by simp

lemma unat_of_nat_u8: "unat (word_of_nat n :: u8) = n mod 256"
  by (simp add: unat_of_nat)

lemma unat_of_nat_u16: "unat (word_of_nat n :: u16) = n mod 65536"
  by (simp add: unat_of_nat)

lemma unat_octet: "n < 256 \<Longrightarrow> unat (word_of_nat n :: u8) = n"
  by (simp only: unat_of_nat_u8 mod_less)

lemma of_nat_unat_u8: "(word_of_nat (unat b) :: u8) = b"
  by simp

lemma of_nat_unat_u16: "(word_of_nat (unat c) :: u16) = c"
  by simp

lemma hi_part: "u < k \<Longrightarrow> (r * k + u) div k = (r::nat)"
  by simp

lemma lo_part: "u < k \<Longrightarrow> (r * k + u) mod k = (u::nat)"
  by simp

subsection \<open>Base64\<close>

lemma unat_base64_char:
  "n < 64 \<Longrightarrow> unat (base64_char n) =
     (if n < 26 then 65 + n else if n < 52 then 71 + n else if n < 62 then n - 4
      else if n = 62 then 43 else 47)"
  unfolding base64_char_def
  by (simp only: unat_of_nat_u16 if_distrib [of unat] cong: if_cong) auto

lemma base64_index_char: "n < 64 \<Longrightarrow> base64_index (base64_char n) = Some n"
  unfolding base64_index_def
  by (simp only: unat_base64_char) auto

lemma base64_char_not_pad: "n < 64 \<Longrightarrow> base64_char n \<noteq> 61"
proof
  assume n: "n < 64" and "base64_char n = 61"
  then have "unat (base64_char n) = 61" by simp
  with n show False
    by (simp add: unat_base64_char split: if_splits)
qed

lemma sextet_2: "(a::nat) mod 4 * 16 + b div 16 < 64" if "b < 256"
proof -
  have "a mod 4 < 4" by simp
  moreover have "b div 16 < 16" using that by simp
  ultimately show ?thesis by linarith
qed

lemma sextet_3: "(b::nat) mod 16 * 4 + c div 64 < 64" if "c < 256"
proof -
  have "b mod 16 < 16" by simp
  moreover have "c div 64 < 4" using that by simp
  ultimately show ?thesis by linarith
qed

lemma octet_1: "(a::nat) div 4 * 4 + (a mod 4 * 16 + b div 16) div 16 = a" if "b < 256"
proof -
  have "b div 16 < 16" using that by simp
  then have "(a mod 4 * 16 + b div 16) div 16 = a mod 4" by (rule hi_part)
  then show ?thesis by simp
qed

lemma octet_2: "((a::nat) mod 4 * 16 + b div 16) mod 16 * 16 + (b mod 16 * 4 + c div 64) div 4 = b"
  if "b < 256" "c < 256"
proof -
  have "b div 16 < 16" using that by simp
  then have 1: "(a mod 4 * 16 + b div 16) mod 16 = b div 16" by (rule lo_part)
  have "c div 64 < 4" using that by simp
  then have 2: "(b mod 16 * 4 + c div 64) div 4 = b mod 16" by (rule hi_part)
  show ?thesis unfolding 1 2 by simp
qed

lemma octet_3: "((b::nat) mod 16 * 4 + c div 64) mod 4 * 64 + c mod 64 = c" if "c < 256"
proof -
  have "c div 64 < 4" using that by simp
  then have 1: "(b mod 16 * 4 + c div 64) mod 4 = c div 64" by (rule lo_part)
  show ?thesis unfolding 1 by simp
qed

lemma decode_block:
  assumes "x < 64" "y < 64" "z < 64" "t < 64"
  shows "base64_decode (base64_char x # base64_char y # base64_char z # base64_char t # rest)
         = map_option
             (\<lambda>bs. of_nat (x * 4 + y div 16) # of_nat (y mod 16 * 16 + z div 4)
                     # of_nat (z mod 4 * 64 + t) # bs)
             (base64_decode rest)"
  using assms by (simp add: base64_index_char base64_char_not_pad)

lemma decode_block_2:
  assumes "x < 64" "y < 64" "z < 64"
  shows "base64_decode [base64_char x, base64_char y, base64_char z, 61]
         = Some [of_nat (x * 4 + y div 16), of_nat (y mod 16 * 16 + z div 4)]"
  using assms by (simp add: base64_index_char base64_char_not_pad)

lemma decode_block_1:
  assumes "x < 64" "y < 64"
  shows "base64_decode [base64_char x, base64_char y, 61, 61] = Some [of_nat (x * 4 + y div 16)]"
  using assms by (simp add: base64_index_char)

lemma base64_decode_base64: "base64_decode (base64 bs) = Some bs"
proof (induction bs rule: base64.induct)
  case 1
  show ?case by simp
next
  case (2 a)
  have a: "unat a < 256" by (rule unat_u8_lt)
  have i1: "unat a div 4 < 64" using a by simp
  have i2: "unat a mod 4 * 16 < 64" using sextet_2 [of 0 "unat a"] by simp
  have v: "unat a div 4 * 4 + unat a mod 4 * 16 div 16 = unat a" by simp
  show ?case
    by (simp only: base64.simps decode_block_1 [OF i1 i2] v of_nat_unat_u8)
next
  case (3 a b)
  have a: "unat a < 256" and b: "unat b < 256" by (rule unat_u8_lt)+
  have i1: "unat a div 4 < 64" using a by simp
  have i2: "unat a mod 4 * 16 + unat b div 16 < 64" using b by (rule sextet_2)
  have i3: "unat b mod 16 * 4 < 64" using sextet_3 [of 0 "unat b"] by simp
  have v1: "unat a div 4 * 4 + (unat a mod 4 * 16 + unat b div 16) div 16 = unat a"
    using b by (rule octet_1)
  have v2: "(unat a mod 4 * 16 + unat b div 16) mod 16 * 16 + unat b mod 16 * 4 div 4 = unat b"
    using octet_2 [of "unat b" 0 "unat a"] b by simp
  show ?case
    by (simp only: base64.simps decode_block_2 [OF i1 i2 i3] v1 v2 of_nat_unat_u8)
next
  case (4 a b c bs)
  have a: "unat a < 256" and b: "unat b < 256" and c: "unat c < 256" by (rule unat_u8_lt)+
  have i1: "unat a div 4 < 64" using a by simp
  have i2: "unat a mod 4 * 16 + unat b div 16 < 64" using b by (rule sextet_2)
  have i3: "unat b mod 16 * 4 + unat c div 64 < 64" using c by (rule sextet_3)
  have i4: "unat c mod 64 < 64" by simp
  have v1: "unat a div 4 * 4 + (unat a mod 4 * 16 + unat b div 16) div 16 = unat a"
    using b by (rule octet_1)
  have v2: "(unat a mod 4 * 16 + unat b div 16) mod 16 * 16
              + (unat b mod 16 * 4 + unat c div 64) div 4 = unat b"
    using b c by (rule octet_2)
  have v3: "(unat b mod 16 * 4 + unat c div 64) mod 4 * 64 + unat c mod 64 = unat c"
    using c by (rule octet_3)
  show ?case
    by (simp only: base64.simps append_Cons append_Nil decode_block [OF i1 i2 i3 i4] "4.IH"
          option.map v1 v2 v3 of_nat_unat_u8)
qed

subsection \<open>UTF-8\<close>

lemma decode_1:
  assumes "unat b = n" "n < 0x80"
  shows "utf8_decode (b # rest) = map_option ((#) n) (utf8_decode rest)"
  using assms by simp

lemma decode_2:
  assumes "unat b = 0xC0 + h" "unat b1 = 0x80 + l" "h < 32" "l < 64" "0x80 \<le> h * 64 + l"
  shows "utf8_decode (b # b1 # rest) = map_option ((#) (h * 64 + l)) (utf8_decode rest)"
  using assms by (simp add: continuation_def)

lemma decode_3:
  assumes "unat b = 0xE0 + h" "unat b1 = 0x80 + m" "unat b2 = 0x80 + l"
    "h < 16" "m < 64" "l < 64" "0x800 \<le> h * 4096 + m * 64 + l"
    "scalar_value (h * 4096 + m * 64 + l)"
  shows "utf8_decode (b # b1 # b2 # rest)
         = map_option ((#) (h * 4096 + m * 64 + l)) (utf8_decode rest)"
  using assms by (simp add: continuation_def)

lemma decode_4:
  assumes "unat b = 0xF0 + h" "unat b1 = 0x80 + m" "unat b2 = 0x80 + k" "unat b3 = 0x80 + l"
    "h < 8" "m < 64" "k < 64" "l < 64" "0x10000 \<le> h * 262144 + m * 4096 + k * 64 + l"
    "scalar_value (h * 262144 + m * 4096 + k * 64 + l)"
  shows "utf8_decode (b # b1 # b2 # b3 # rest)
         = map_option ((#) (h * 262144 + m * 4096 + k * 64 + l)) (utf8_decode rest)"
  using assms by (simp add: continuation_def)

lemma regroup: "(q::nat) * (64 * k) + r * k = (q * 64 + r) * k"
  by (simp add: algebra_simps)

lemma split_3: "cp div 4096 * 4096 + cp div 64 mod 64 * 64 + cp mod 64 = (cp::nat)"
proof -
  have 1: "cp div 4096 = cp div 64 div 64" by (simp add: div_mult2_eq)
  have 2: "cp div 64 div 64 * 64 + cp div 64 mod 64 = cp div 64" by simp
  have "cp div 4096 * 4096 + cp div 64 mod 64 * 64 = cp div 64 * 64"
    using regroup [of "cp div 64 div 64" 64 "cp div 64 mod 64"] by (simp only: 1 2)
  then show ?thesis by simp
qed

lemma split_4:
  "cp div 262144 * 262144 + cp div 4096 mod 64 * 4096 + cp div 64 mod 64 * 64 + cp mod 64 = (cp::nat)"
proof -
  have 1: "cp div 262144 = cp div 4096 div 64" by (simp add: div_mult2_eq)
  have 2: "cp div 4096 div 64 * 64 + cp div 4096 mod 64 = cp div 4096" by simp
  have "cp div 262144 * 262144 + cp div 4096 mod 64 * 4096 = cp div 4096 * 4096"
    using regroup [of "cp div 4096 div 64" 4096 "cp div 4096 mod 64"] by (simp only: 1 2)
  with split_3 [of cp] show ?thesis by simp
qed

lemma utf8_decode_octets:
  assumes "scalar_value cp"
  shows "utf8_decode (utf8_octets cp @ rest) = map_option ((#) cp) (utf8_decode rest)"
proof -
  consider "cp < 0x80" | "0x80 \<le> cp" "cp < 0x800" | "0x800 \<le> cp" "cp < 0x10000" | "0x10000 \<le> cp"
    by linarith
  then show ?thesis
  proof cases
    case 1
    then have u: "unat (word_of_nat cp :: u8) = cp" by (simp add: unat_octet)
    have "utf8_octets cp = [of_nat cp]" using 1 by (simp only: utf8_octets_def if_True)
    then show ?thesis using decode_1 [OF u 1] by simp
  next
    case 2
    have h: "cp div 64 < 32" using 2 by simp
    have l: "cp mod 64 < 64" by simp
    have u0: "unat (word_of_nat (0xC0 + cp div 64) :: u8) = 0xC0 + cp div 64"
      using h by (intro unat_octet) simp
    have u1: "unat (word_of_nat (0x80 + cp mod 64) :: u8) = 0x80 + cp mod 64"
      by (intro unat_octet) simp
    have v: "cp div 64 * 64 + cp mod 64 = cp" by simp
    have ge: "0x80 \<le> cp div 64 * 64 + cp mod 64" unfolding v using 2 by simp
    have "utf8_octets cp = [of_nat (0xC0 + cp div 64), of_nat (0x80 + cp mod 64)]"
      using 2 by (simp only: utf8_octets_def) simp
    then show ?thesis
      using decode_2 [OF u0 u1 h l ge, of rest] unfolding v by (simp only: append_Cons append_Nil)
  next
    case 3
    have h: "cp div 4096 < 16" using 3 by simp
    have m: "cp div 64 mod 64 < 64" and l: "cp mod 64 < 64" by simp_all
    have u0: "unat (word_of_nat (0xE0 + cp div 4096) :: u8) = 0xE0 + cp div 4096"
      using h by (intro unat_octet) simp
    have u1: "unat (word_of_nat (0x80 + cp div 64 mod 64) :: u8) = 0x80 + cp div 64 mod 64"
      by (intro unat_octet) simp
    have u2: "unat (word_of_nat (0x80 + cp mod 64) :: u8) = 0x80 + cp mod 64"
      by (intro unat_octet) simp
    note v = split_3 [of cp]
    have ge: "0x800 \<le> cp div 4096 * 4096 + cp div 64 mod 64 * 64 + cp mod 64"
      unfolding v using 3 by simp
    have sv: "scalar_value (cp div 4096 * 4096 + cp div 64 mod 64 * 64 + cp mod 64)"
      unfolding v by (rule assms)
    have "utf8_octets cp = [of_nat (0xE0 + cp div 4096), of_nat (0x80 + cp div 64 mod 64),
                            of_nat (0x80 + cp mod 64)]"
      using 3 by (simp only: utf8_octets_def) simp
    then show ?thesis
      using decode_3 [OF u0 u1 u2 h m l ge sv, of rest] unfolding v
      by (simp only: append_Cons append_Nil)
  next
    case 4
    have le: "cp \<le> 0x10FFFF" using assms by (simp add: scalar_value_def)
    have h: "cp div 262144 < 8" using le by simp
    have m: "cp div 4096 mod 64 < 64" and k: "cp div 64 mod 64 < 64" and l: "cp mod 64 < 64"
      by simp_all
    have u0: "unat (word_of_nat (0xF0 + cp div 262144) :: u8) = 0xF0 + cp div 262144"
      using h by (intro unat_octet) simp
    have u1: "unat (word_of_nat (0x80 + cp div 4096 mod 64) :: u8) = 0x80 + cp div 4096 mod 64"
      by (intro unat_octet) simp
    have u2: "unat (word_of_nat (0x80 + cp div 64 mod 64) :: u8) = 0x80 + cp div 64 mod 64"
      by (intro unat_octet) simp
    have u3: "unat (word_of_nat (0x80 + cp mod 64) :: u8) = 0x80 + cp mod 64"
      by (intro unat_octet) simp
    note v = split_4 [of cp]
    have ge: "0x10000 \<le> cp div 262144 * 262144 + cp div 4096 mod 64 * 4096
                          + cp div 64 mod 64 * 64 + cp mod 64"
      unfolding v using 4 by simp
    have sv: "scalar_value (cp div 262144 * 262144 + cp div 4096 mod 64 * 4096
                          + cp div 64 mod 64 * 64 + cp mod 64)"
      unfolding v by (rule assms)
    have "utf8_octets cp = [of_nat (0xF0 + cp div 262144), of_nat (0x80 + cp div 4096 mod 64),
                            of_nat (0x80 + cp div 64 mod 64), of_nat (0x80 + cp mod 64)]"
      using 4 by (simp only: utf8_octets_def) simp
    then show ?thesis
      using decode_4 [OF u0 u1 u2 u3 h m k l ge sv, of rest] unfolding v
      by (simp only: append_Cons append_Nil)
  qed
qed

lemma utf8_decode_concat:
  "list_all scalar_value cps \<Longrightarrow> utf8_decode (concat (map utf8_octets cps)) = Some cps"
  by (induction cps) (simp_all add: utf8_decode_octets)

subsection \<open>UTF-16\<close>

lemma utf16_units_single: "utf16_units (unat (c :: u16)) = [c]"
  using unat_u16_lt [of c] by (simp only: utf16_units_def if_True of_nat_unat_u16)

lemma scalar_value_single:
  "\<not> is_high_surrogate c \<Longrightarrow> \<not> is_low_surrogate c \<Longrightarrow> scalar_value (unat c)"
  using unat_u16_lt [of c]
  by (simp add: scalar_value_def is_high_surrogate_def is_low_surrogate_def) linarith

lemma surrogate_pair_parts:
  assumes "is_high_surrogate c" "is_low_surrogate d"
  shows "0x10000 \<le> surrogate_pair c d" "surrogate_pair c d \<le> 0x10FFFF"
    "0xD800 + (surrogate_pair c d - 0x10000) div 0x400 = unat c"
    "0xDC00 + (surrogate_pair c d - 0x10000) mod 0x400 = unat d"
proof -
  define hi lo where "hi = unat c - 0xD800" and "lo = unat d - 0xDC00"
  have hi: "hi < 0x400" "unat c = 0xD800 + hi"
    using assms(1) unfolding hi_def is_high_surrogate_def by arith+
  have lo: "lo < 0x400" "unat d = 0xDC00 + lo"
    using assms(2) unfolding lo_def is_low_surrogate_def by arith+
  have sp: "surrogate_pair c d = hi * 0x400 + lo + 0x10000"
    by (simp add: surrogate_pair_def hi_def lo_def)
  show "0x10000 \<le> surrogate_pair c d" unfolding sp by simp
  show "surrogate_pair c d \<le> 0x10FFFF" unfolding sp using hi(1) lo(1) by simp
  have d: "(hi * 0x400 + lo) div 0x400 = hi" using lo(1) by (rule hi_part)
  have m: "(hi * 0x400 + lo) mod 0x400 = lo" using lo(1) by (rule lo_part)
  show "0xD800 + (surrogate_pair c d - 0x10000) div 0x400 = unat c"
    unfolding sp hi(2) using d by simp
  show "0xDC00 + (surrogate_pair c d - 0x10000) mod 0x400 = unat d"
    unfolding sp lo(2) using m by simp
qed

lemma utf16_units_pair:
  assumes "is_high_surrogate c" "is_low_surrogate d"
  shows "utf16_units (surrogate_pair c d) = [c, d]"
proof -
  note p = surrogate_pair_parts [OF assms]
  have "\<not> surrogate_pair c d < 0x10000" using p(1) by simp
  then show ?thesis
    by (simp only: utf16_units_def if_False p(3) p(4) of_nat_unat_u16)
qed

lemma scalar_value_pair:
  assumes "is_high_surrogate c" "is_low_surrogate d"
  shows "scalar_value (surrogate_pair c d)"
  using surrogate_pair_parts(1,2) [OF assms] by (simp add: scalar_value_def)

lemma well_formed_scalar_values:
  "well_formed s \<Longrightarrow> list_all scalar_value (scalar_values s)"
proof (induction s rule: scalar_values.induct)
  case 1
  show ?case by simp
next
  case (2 c cs)
  show ?case
  proof (cases "is_high_surrogate c")
    case True
    with "2.prems" obtain d ds where cs: "cs = d # ds" and d: "is_low_surrogate d"
      and wf: "well_formed ds"
      by (auto split: list.splits)
    from "2.IH"(1) [OF True cs d wf] True cs d show ?thesis
      by (simp add: scalar_value_pair)
  next
    case False
    with "2.prems" have low: "\<not> is_low_surrogate c" and wf: "well_formed cs" by simp_all
    from "2.IH"(4) [OF False low wf] False low show ?thesis
      by (simp add: scalar_value_single)
  qed
qed

lemma well_formed_utf16_units:
  "well_formed s \<Longrightarrow> concat (map utf16_units (scalar_values s)) = s"
proof (induction s rule: scalar_values.induct)
  case 1
  show ?case by simp
next
  case (2 c cs)
  show ?case
  proof (cases "is_high_surrogate c")
    case True
    with "2.prems" obtain d ds where cs: "cs = d # ds" and d: "is_low_surrogate d"
      and wf: "well_formed ds"
      by (auto split: list.splits)
    from "2.IH"(1) [OF True cs d wf] True cs d show ?thesis
      by (simp add: utf16_units_pair)
  next
    case False
    with "2.prems" have low: "\<not> is_low_surrogate c" and wf: "well_formed cs" by simp_all
    from "2.IH"(4) [OF False low wf] False low show ?thesis
      by (simp add: utf16_units_single)
  qed
qed

subsection \<open>Percent-escapes and \<^verbatim>\<open>unescape\<close>\<close>

lemma unat_upper_hex_digit:
  "d < 16 \<Longrightarrow> unat (upper_hex_digit d) = (if d < 10 then 48 + d else 55 + d)"
  unfolding upper_hex_digit_def
  by (simp only: unat_of_nat_u16 if_distrib [of unat] cong: if_cong) auto

lemma hex_value_upper: "d < 16 \<Longrightarrow> hex_value (upper_hex_digit d) = Some d"
  unfolding hex_value_def Let_def
  by (simp only: unat_upper_hex_digit) auto

lemma upper_hex_digit_not_u: "d < 16 \<Longrightarrow> upper_hex_digit d \<noteq> 117"
proof
  assume d: "d < 16" and "upper_hex_digit d = 117"
  then have "unat (upper_hex_digit d) = 117" by simp
  with d show False by (simp add: unat_upper_hex_digit split: if_splits)
qed

lemma unescape_percent:
  assumes "h < 16" "l < 16"
  shows "unescape (37 # upper_hex_digit h # upper_hex_digit l # rest)
         = of_nat (16 * h + l) # unescape rest"
  using assms
  by (simp add: unescape.simps(2) [of 37] hex_value_upper upper_hex_digit_not_u
        del: of_nat_add of_nat_mult)

lemma unescape_percent_octet:
  "unescape (percent_octet b @ rest) = of_nat (unat b) # unescape rest"
proof -
  have h: "unat b div 16 < 16" using unat_u8_lt [of b] by simp
  have l: "unat b mod 16 < 16" by simp
  have v: "16 * (unat b div 16) + unat b mod 16 = unat b" by simp
  show ?thesis
    by (simp only: percent_octet_def append_Cons append_Nil unescape_percent [OF h l] v)
qed

lemma unescape_percent_octets:
  "unescape (percent_octets bs @ rest) = binary_string bs @ unescape rest"
  by (induction bs)
    (simp_all add: percent_octets_def binary_string_def unescape_percent_octet
       del: of_nat_unat)

lemma unescape_other: "c \<noteq> 37 \<Longrightarrow> unescape (c # rest) = c # unescape rest"
  by (simp add: unescape.simps(2) [of c])

lemma uriUnescaped_ascii:
  assumes "List.member uriUnescaped c"
  shows "c \<noteq> 37" and "unat c < 128"
proof -
  from assms have "c \<in> set uriUnescaped" by simp
  then show "c \<noteq> 37" and "unat c < 128"
    by (auto simp: uriUnescaped_def str_def)
qed

lemma binary_string_append: "binary_string (xs @ ys) = binary_string xs @ binary_string ys"
  by (simp add: binary_string_def)

lemma binary_string_ascii:
  assumes "unat (c :: u16) < 128"
  shows "binary_string (utf8_octets (unat c)) = [c]"
proof -
  have "unat (word_of_nat (unat c) :: u8) = unat c"
    using assms by (intro unat_octet) simp
  then have "(word_of_nat (unat (word_of_nat (unat c) :: u8)) :: u16) = c"
    by (simp only: of_nat_unat_u16)
  moreover have "utf8_octets (unat c) = [of_nat (unat c)]"
    using assms by (simp only: utf8_octets_def if_True)
  ultimately show ?thesis
    by (simp only: binary_string_def list.map)
qed

lemma TextEncoder_encode_Nil: "TextEncoder_encode [] = []"
  by (simp add: TextEncoder_encode_def)

lemma TextEncoder_encode_single:
  "\<not> is_high_surrogate c \<Longrightarrow> \<not> is_low_surrogate c \<Longrightarrow>
   TextEncoder_encode (c # cs) = utf8_octets (unat c) @ TextEncoder_encode cs"
  by (simp add: TextEncoder_encode_def)

lemma TextEncoder_encode_pair:
  "is_high_surrogate c \<Longrightarrow> is_low_surrogate d \<Longrightarrow>
   TextEncoder_encode (c # d # ds) = utf8_octets (surrogate_pair c d) @ TextEncoder_encode ds"
  by (simp add: TextEncoder_encode_def)

lemma Encode_unescape:
  "well_formed s \<Longrightarrow> \<exists>r. Encode s = Inr r \<and> unescape r = binary_string (TextEncoder_encode s)"
proof (induction s rule: scalar_values.induct)
  case 1
  show ?case by (simp add: unescape.simps(1) TextEncoder_encode_Nil binary_string_def)
next
  case (2 c cs)
  show ?case
  proof (cases "is_high_surrogate c")
    case True
    with "2.prems" obtain d ds where cs: "cs = d # ds" and d: "is_low_surrogate d"
      and wf: "well_formed ds"
      by (auto split: list.splits)
    from "2.IH"(1) [OF True cs d wf] obtain r where
      r: "Encode ds = Inr r" "unescape r = binary_string (TextEncoder_encode ds)" by blast
    have "\<not> unat c < 128" using True by (simp add: is_high_surrogate_def)
    then have nm: "\<not> List.member uriUnescaped c" using uriUnescaped_ascii(2) by blast
    have "Encode (c # cs) = Inr (percent_octets (utf8_octets (surrogate_pair c d)) @ r)"
      using nm True d r(1) by (simp add: cs)
    moreover have "unescape (percent_octets (utf8_octets (surrogate_pair c d)) @ r)
                   = binary_string (TextEncoder_encode (c # cs))"
      unfolding cs
      by (simp only: unescape_percent_octets r(2) TextEncoder_encode_pair [OF True d]
            binary_string_append)
    ultimately show ?thesis by blast
  next
    case False
    with "2.prems" have low: "\<not> is_low_surrogate c" and wf: "well_formed cs" by simp_all
    from "2.IH"(4) [OF False low wf] obtain r where
      r: "Encode cs = Inr r" "unescape r = binary_string (TextEncoder_encode cs)" by blast
    show ?thesis
    proof (cases "List.member uriUnescaped c")
      case True
      note a = uriUnescaped_ascii [OF True]
      have "Encode (c # cs) = Inr (c # r)" using True r(1) by simp
      moreover have "unescape (c # r) = binary_string (TextEncoder_encode (c # cs))"
        by (simp only: unescape_other [OF a(1)] r(2) TextEncoder_encode_single [OF False low]
              binary_string_append binary_string_ascii [OF a(2)] append_Cons append_Nil)
      ultimately show ?thesis by blast
    next
      case nm: False
      have "Encode (c # cs) = Inr (percent_octets (utf8_octets (unat c)) @ r)"
        using nm False low r(1) by simp
      moreover have "unescape (percent_octets (utf8_octets (unat c)) @ r)
                     = binary_string (TextEncoder_encode (c # cs))"
        by (simp only: unescape_percent_octets r(2) TextEncoder_encode_single [OF False low]
              binary_string_append)
      ultimately show ?thesis by blast
    qed
  qed
qed

lemma btoa_binary_string: "btoa (binary_string bs) = Inr (base64 bs)"
proof -
  have u: "unat (word_of_nat (unat b) :: u16) = unat b" for b :: u8
    using unat_u8_lt [of b] by (simp only: unat_of_nat_u16) simp
  have le: "unat b \<le> 255" for b :: u8
    using unat_u8_lt [of b] by simp
  have "\<not> list_ex (\<lambda>c. 255 < unat c) (binary_string bs)"
    by (induction bs) (simp_all add: binary_string_def u le not_less del: of_nat_unat)
  moreover have "map (\<lambda>c. of_nat (unat c)) (binary_string bs) = bs"
    by (induction bs) (simp_all add: binary_string_def u of_nat_unat_u8 del: of_nat_unat)
  ultimately show ?thesis by (simp add: btoa_def)
qed

lemma base64Encode_text:
  assumes "well_formed s"
  shows "base64Encode P (JStr s) = Inr (base64 (TextEncoder_encode s))"
proof -
  from Encode_unescape [OF assms] obtain r where
    "Encode s = Inr r" "unescape r = binary_string (TextEncoder_encode s)" by blast
  then show ?thesis
    by (simp add: base64Encode_def encodeURIComponent_def btoa_binary_string)
qed

lemma decode_base64_utf8_text:
  assumes "well_formed s"
  shows "decode_base64_utf8 (base64 (TextEncoder_encode s)) = Some s"
  using assms
  by (simp add: decode_base64_utf8_def base64_decode_base64 TextEncoder_encode_def
        utf8_decode_concat well_formed_scalar_values well_formed_utf16_units)

text \<open>
  C6. For every Unicode text \<open>s\<close> (a string in which every surrogate is paired, so
  also one with characters of two, three and four UTF-8 octets), \<open>base64Encode\<close>
  returns the base64 of the UTF-8 octets of \<open>s\<close>, and decoding that base64 text as
  UTF-8 gives back exactly \<open>s\<close>.
\<close>

theorem base64Encode_round_trip:
  assumes "well_formed s"
  shows "base64Encode P (JStr s) = Inr (base64 (TextEncoder_encode s))
         \<and> decode_base64_utf8 (base64 (TextEncoder_encode s)) = Some s"
  using assms by (simp add: base64Encode_text decode_base64_utf8_text)

theorem base64Encode_round_trip_witness:
  "well_formed [0xD83D, 0xDE00, 0xE9, 0x4E2D, 0x68]
   \<and> base64Encode test_platform (JStr [0xD83D, 0xDE00, 0xE9, 0x4E2D, 0x68])
       = Inr (str ''8J+YgMOp5LitaA=='')
   \<and> decode_base64_utf8 (str ''8J+YgMOp5LitaA=='') = Some [0xD83D, 0xDE00, 0xE9, 0x4E2D, 0x68]"
proof -
  have wf: "well_formed [0xD83D, 0xDE00, 0xE9, 0x4E2D, 0x68]"
    by (simp add: is_high_surrogate_def is_low_surrogate_def)
  have te: "TextEncoder_encode [0xD83D, 0xDE00, 0xE9, 0x4E2D, 0x68]
              = [0xF0, 0x9F, 0x98, 0x80, 0xC3, 0xA9, 0xE4, 0xB8, 0xAD, 0x68]"
    by (simp add: TextEncoder_encode_def utf8_octets_def is_high_surrogate_def
          is_low_surrogate_def surrogate_pair_def)
  have e: "base64 [0xF0, 0x9F, 0x98, 0x80, 0xC3, 0xA9, 0xE4, 0xB8, 0xAD, 0x68]
             = str ''8J+YgMOp5LitaA==''"
    by (simp add: base64_char_def str_def)
  note r = base64Encode_round_trip [OF wf, of test_platform, unfolded te e]
  from wf r show ?thesis by blast
qed

section \<open>Properties of the Remote Content Client\<close>

lemma io_bind_Inr: "io_bind (io_of (Inr x)) f w = f x w"
  by (simp add: io_bind_def io_of_def)

lemma io_bind_Inl: "io_bind (io_of (Inl e)) f w = (Inl e, w)"
  by (simp add: io_bind_def io_of_def)

lemma safeParseRequestJSON_eq:
  "safeParseRequestJSON P request w =
     ((case JSON_parse P (req_text request) of
         None \<Rightarrow> Inl (Error (str ''Invalid JSON body''))
       | Some v \<Rightarrow> Inr v),
      w\<lparr>events := events w @ [Parsed (req_text request)]\<rparr>)"
  by (simp add: safeParseRequestJSON_def JSON_parse_io_def split: option.split)

lemma safeGitHubRequest_reply:
  assumes "net (request_init env url opts) (remote w) = (Some r, s')"
  shows "safeGitHubRequest P net url env opts w =
     ((case JSON_parse P (reply_text r) of
         None \<Rightarrow> Inl (Error (nonJSON_message (reply_text r)))
       | Some data \<Rightarrow>
           if reply_ok r then Inr data
           else Inl (Error (apiError_message P (reply_status r) data))),
      \<lparr>remote = s',
       events = events w @ [Fetched (request_init env url opts), Parsed (reply_text r)]\<rparr>)"
  using assms
  by (simp add: safeGitHubRequest_def io_bind_def fetch_def JSON_parse_io_def Let_def
        split: option.split)

lemma safeGitHubRequest_rejected:
  assumes "net (request_init env url opts) (remote w) = (None, s')"
  shows "safeGitHubRequest P net url env opts w =
     (Inl NetworkError,
      \<lparr>remote = s', events = events w @ [Fetched (request_init env url opts)]\<rparr>)"
  using assms
  by (simp add: safeGitHubRequest_def io_bind_def fetch_def)

lemma unat_decimal_digit: "d < 10 \<Longrightarrow> unat (digit_char d) = 48 + d"
  unfolding digit_char_def
  by (simp only: if_True unat_of_nat_u16) simp

lemma decimal_value_toString_radix: "decimal_value (toString_radix 10 n) = n"
proof (induction n rule: less_induct)
  case (less n)
  show ?case
  proof (cases "10 \<le> n")
    case True
    then have "n div 10 < n" by simp
    then have ih: "decimal_value (toString_radix 10 (n div 10)) = n div 10"
      by (rule less.IH)
    have d: "unat (digit_char (n mod 10)) = 48 + n mod 10"
      by (rule unat_decimal_digit) simp
    have "toString_radix 10 n = toString_radix 10 (n div 10) @ [digit_char (n mod 10)]"
      using True by (simp add: toString_radix.simps [of 10 n])
    then show ?thesis
      using ih by (simp add: decimal_value_def d)
  next
    case False
    then have n: "n < 10" by simp
    have "toString_radix 10 n = [digit_char n]"
      using False by (simp add: toString_radix.simps [of 10 n])
    then show ?thesis
      by (simp add: decimal_value_def unat_decimal_digit [OF n])
  qed
qed

lemma decimal_digits_toString_radix:
  "list_all (\<lambda>c. 48 \<le> unat c \<and> unat c \<le> 57) (toString_radix 10 n)"
proof (induction n rule: less_induct)
  case (less n)
  show ?case
  proof (cases "10 \<le> n")
    case True
    then have "n div 10 < n" by simp
    then have ih: "list_all (\<lambda>c. 48 \<le> unat c \<and> unat c \<le> 57) (toString_radix 10 (n div 10))"
      by (rule less.IH)
    have d: "unat (digit_char (n mod 10)) = 48 + n mod 10"
      by (rule unat_decimal_digit) simp
    have m: "n mod 10 \<le> 9" by simp
    have "toString_radix 10 n = toString_radix 10 (n div 10) @ [digit_char (n mod 10)]"
      using True by (simp add: toString_radix.simps [of 10 n])
    then show ?thesis
      using ih m by (simp add: d)
  next
    case False
    then have n: "n < 10" by simp
    have "toString_radix 10 n = [digit_char n]"
      using False by (simp add: toString_radix.simps [of 10 n])
    then show ?thesis
      using n by (simp add: unat_decimal_digit [OF n])
  qed
qed

text \<open>
  C8. When the remote replies, the text of the reply is parsed before the status is
  looked at. A reply whose text is not JSON fails, whatever its status, with the
  message of line 130: the word \<^verbatim>\<open>GitHub\<close>, three characters, \<^verbatim>\<open>JSON\<close>, two characters,
  a colon and a line feed, and then the raw text of the reply, unchanged. Only a reply
  whose text did parse is tested for its status; when that is not a success the flow
  fails with the message of line 135: \<^verbatim>\<open>GitHub API\<close>, two characters, a space, the
  status in decimal digits (from which the status is read back), a colon, a line feed
  and the indented JSON text of the parsed value. The two messages are never the same.
\<close>

theorem safeGitHubRequest_parse_before_status:
  assumes "net (request_init env url opts) (remote w) = (Some r, s')"
  shows "fst (safeGitHubRequest P net url env opts w) =
           (case JSON_parse P (reply_text r) of
              None \<Rightarrow>
                Inl (Error (str ''GitHub '' @ [0x8FD4, 0x56DE, 0x975E] @ str '' JSON ''
                            @ [0x54CD, 0x5E94] @ str '':'' @ [10] @ reply_text r))
            | Some data \<Rightarrow>
                if reply_ok r then Inr data
                else Inl (Error (str ''GitHub API '' @ [0x9519, 0x8BEF] @ str '' ''
                                 @ toString_radix 10 (reply_status r) @ str '':'' @ [10]
                                 @ (case JSON_stringify_indent P data 2 of
                                      None \<Rightarrow> str ''undefined''
                                    | Some t \<Rightarrow> t))))
         \<and> decimal_value (toString_radix 10 (reply_status r)) = reply_status r
         \<and> list_all (\<lambda>c. 48 \<le> unat c \<and> unat c \<le> 57) (toString_radix 10 (reply_status r))
         \<and> str ''GitHub '' @ [0x8FD4, 0x56DE, 0x975E] @ str '' JSON '' @ [0x54CD, 0x5E94]
             @ str '':'' @ [10] @ t
           \<noteq> str ''GitHub API '' @ [0x9519, 0x8BEF] @ str '' '' @ toString_radix 10 st
             @ str '':'' @ [10] @ rendered"
proof (intro conjI)
  show "fst (safeGitHubRequest P net url env opts w) =
           (case JSON_parse P (reply_text r) of
              None \<Rightarrow>
                Inl (Error (str ''GitHub '' @ [0x8FD4, 0x56DE, 0x975E] @ str '' JSON ''
                            @ [0x54CD, 0x5E94] @ str '':'' @ [10] @ reply_text r))
            | Some data \<Rightarrow>
                if reply_ok r then Inr data
                else Inl (Error (str ''GitHub API '' @ [0x9519, 0x8BEF] @ str '' ''
                                 @ toString_radix 10 (reply_status r) @ str '':'' @ [10]
                                 @ (case JSON_stringify_indent P data 2 of
                                      None \<Rightarrow> str ''undefined''
                                    | Some t \<Rightarrow> t))))"
    unfolding safeGitHubRequest_reply [where net = net and w = w and P = P, OF assms]
      nonJSON_message_def apiError_message_def
    by simp
  show "decimal_value (toString_radix 10 (reply_status r)) = reply_status r"
    by (rule decimal_value_toString_radix)
  show "list_all (\<lambda>c. 48 \<le> unat c \<and> unat c \<le> 57) (toString_radix 10 (reply_status r))"
    by (rule decimal_digits_toString_radix)
  show "str ''GitHub '' @ [0x8FD4, 0x56DE, 0x975E] @ str '' JSON '' @ [0x54CD, 0x5E94]
             @ str '':'' @ [10] @ t
           \<noteq> str ''GitHub API '' @ [0x9519, 0x8BEF] @ str '' '' @ toString_radix 10 st
             @ str '':'' @ [10] @ rendered"
    by (simp add: str_def)
qed

theorem safeGitHubRequest_parse_before_status_witness:
  \<open>fst (safeGitHubRequest test_platform
          (test_remote (Some \<lparr>reply_status = 404, reply_text = str ''Not Found''\<rparr>) None)
          (read_url test_env) test_env no_options test_world)
     = Inl (Error (str ''GitHub '' @ [0x8FD4, 0x56DE, 0x975E] @ str '' JSON '' @ [0x54CD, 0x5E94]
                   @ str '':'' @ [10] @ str ''Not Found''))
   \<and> fst (safeGitHubRequest test_platform
          (test_remote (Some \<lparr>reply_status = 404, reply_text = str ''{"message":"Not Found"}''\<rparr>) None)
          (read_url test_env) test_env no_options test_world)
     = Inl (Error (str ''GitHub API '' @ [0x9519, 0x8BEF] @ str '' 404:'' @ [10]
                   @ str ''{"message":"Not Found"}''))
   \<and> decimal_value (str ''404'') = 404\<close>
proof -
  let ?a = "\<lparr>reply_status = 404, reply_text = str ''Not Found''\<rparr>"
  let ?b = \<open>\<lparr>reply_status = 404, reply_text = str ''{"message":"Not Found"}''\<rparr>\<close>
  have na: "test_remote (Some ?a) None
             (request_init test_env (read_url test_env) no_options) (remote test_world)
           = (Some ?a, 0)"
    and nb: "test_remote (Some ?b) None
             (request_init test_env (read_url test_env) no_options) (remote test_world)
           = (Some ?b, 0)"
    by (simp_all add: test_remote_def request_init_def no_options_def test_world_def)
  have pa: "JSON_parse test_platform (reply_text ?a) = None"
    and pb: "JSON_parse test_platform (reply_text ?b)
               = Some (JObj [(str ''message'', JStr (str ''Not Found''))])"
    by (simp_all add: test_platform_def test_documents_def str_def)
  have k: "\<not> reply_ok ?b" by (simp add: reply_ok_def)
  have d: "toString_radix 10 404 = str ''404''"
    by (simp add: toString_radix.simps [of 10 404] toString_radix.simps [of 10 40]
          toString_radix.simps [of 10 4] digit_char_def str_def)
  have i: \<open>JSON_stringify_indent test_platform (JObj [(str ''message'', JStr (str ''Not Found''))]) 2
           = Some (str ''{"message":"Not Found"}'')\<close>
    by (simp add: JSON_stringify_indent_def test_platform_def test_render_def test_documents_def
          str_def)
  note c8 = safeGitHubRequest_parse_before_status [where w = test_world and P = test_platform]
  from c8 [where net = "test_remote (Some ?a) None", OF na] pa
  have 1: "fst (safeGitHubRequest test_platform (test_remote (Some ?a) None)
                  (read_url test_env) test_env no_options test_world)
           = Inl (Error (str ''GitHub '' @ [0x8FD4, 0x56DE, 0x975E] @ str '' JSON ''
                         @ [0x54CD, 0x5E94] @ str '':'' @ [10] @ str ''Not Found''))"
    by simp
  have cat: "str '' '' @ str ''404'' @ str '':'' @ x = str '' 404:'' @ x" for x
    by (simp add: str_def)
  from c8 [where net = "test_remote (Some ?b) None", OF nb] pb k
  have 2: \<open>fst (safeGitHubRequest test_platform (test_remote (Some ?b) None)
                  (read_url test_env) test_env no_options test_world)
           = Inl (Error (str ''GitHub API '' @ [0x9519, 0x8BEF] @ str '' 404:'' @ [10]
                   @ str ''{"message":"Not Found"}''))\<close>
    and 3: "decimal_value (toString_radix 10 404) = 404"
    by (simp_all add: d i cat)
  from 1 2 3 show ?thesis unfolding d by blast
qed

section \<open>Properties of the Webhook Flow\<close>

lemma handleWebhook_not_verified:
  assumes "req_method request = str ''POST''"
    and "verifySignature P (req_text request) (req_header request (str ''x-hub-signature-256''))
           (WEBHOOK_SECRET env) \<noteq> Inr True"
  shows "snd (handleWebhook P request env w) = w"
proof (cases "verifySignature P (req_text request) (req_header request (str ''x-hub-signature-256''))
           (WEBHOOK_SECRET env)")
  case (Inl e)
  with assms(1) show ?thesis
    by (simp add: handleWebhook_def Let_def io_bind_Inl)
next
  case (Inr valid)
  with assms(2) have "\<not> valid" by simp
  with Inr assms(1) show ?thesis
    by (simp add: handleWebhook_def Let_def io_bind_Inr io_of_def)
qed

text \<open>
  C2. A POST to the Webhook Flow whose signature fails verification is answered with
  status 401 and the body \<^verbatim>\<open>{error: "Invalid signature"}\<close>, and the run leaves the world
  as it was: nothing is handed to \<^verbatim>\<open>JSON.parse\<close>. More generally, unless verification
  returned true the run logs no parse, so verification precedes every parse of the
  payload.
\<close>

theorem handleWebhook_invalid_signature:
  assumes "req_method request = str ''POST''"
  shows "(verifySignature P (req_text request) (req_header request (str ''x-hub-signature-256''))
            (WEBHOOK_SECRET env) = Inr False \<longrightarrow>
          handleWebhook P request env w =
            (Inr \<lparr>status = 401,
                  headers = [(str ''Content-Type'', str ''application/json'')],
                  body = JSON_stringify P (JObj [(str ''error'', JStr (str ''Invalid signature''))])\<rparr>,
             w))
         \<and> (verifySignature P (req_text request) (req_header request (str ''x-hub-signature-256''))
            (WEBHOOK_SECRET env) \<noteq> Inr True \<longrightarrow>
          events (snd (handleWebhook P request env w)) = events w)"
proof (intro conjI impI)
  assume "verifySignature P (req_text request) (req_header request (str ''x-hub-signature-256''))
            (WEBHOOK_SECRET env) = Inr False"
  with assms show "handleWebhook P request env w =
            (Inr \<lparr>status = 401,
                  headers = [(str ''Content-Type'', str ''application/json'')],
                  body = JSON_stringify P (JObj [(str ''error'', JStr (str ''Invalid signature''))])\<rparr>,
             w)"
    by (simp add: handleWebhook_def Let_def io_bind_Inr io_of_def jsonResponse_def error_object_def)
next
  assume "verifySignature P (req_text request) (req_header request (str ''x-hub-signature-256''))
            (WEBHOOK_SECRET env) \<noteq> Inr True"
  with assms show "events (snd (handleWebhook P request env w)) = events w"
    by (simp add: handleWebhook_not_verified)
qed

lemma test_hmac_k:
  "hmac_sha256 test_platform (TextEncoder_encode (str ''k'')) (TextEncoder_encode (str ''{}''))
     = Some [0x6b, 0xf8]"
  by (simp add: test_platform_def test_hmac_def TextEncoder_encode_def str_def utf8_octets_def
        is_high_surrogate_def is_low_surrogate_def)

lemma test_token_k: "signature_token [0x6b, 0xf8] = str ''sha256=6bf8''"
  by (simp add: signature_token_def hex_lower_def hex_digit_lower_def str_def)

theorem handleWebhook_invalid_signature_witness:
  "handleWebhook test_platform
     (test_request (str ''POST'') (str ''/webhook'') (Some (str ''sha256=0000'')) (str ''{}''))
     test_env test_world
   = (Inr \<lparr>status = 401,
           headers = [(str ''Content-Type'', str ''application/json'')],
           body = Some (str ''{\"error\":\"Invalid signature\"}'')\<rparr>,
      test_world)"
proof -
  let ?r = "test_request (str ''POST'') (str ''/webhook'') (Some (str ''sha256=0000'')) (str ''{}'')"
  have m: "req_method ?r = str ''POST''" by (simp add: test_request_def)
  have "verifySignature test_platform (str ''{}'') (Some (str ''sha256=0000'')) (str ''k'')
          = Inr (Some (str ''sha256=0000'') = Some (signature_token [0x6b, 0xf8]))"
    using verifySignature_present [OF test_hmac_k] .
  then have v: "verifySignature test_platform (req_text ?r)
                  (req_header ?r (str ''x-hub-signature-256'')) (WEBHOOK_SECRET test_env) = Inr False"
    by (simp add: test_request_def test_env_def test_token_k) (simp add: str_def)
  have b: "JSON_stringify test_platform (JObj [(str ''error'', JStr (str ''Invalid signature''))])
             = Some (str ''{\"error\":\"Invalid signature\"}'')"
    by (simp add: JSON_stringify_def test_platform_def test_render_def test_documents_def str_def)
  from handleWebhook_invalid_signature [OF m, of test_platform test_env test_world] v b
  show ?thesis by simp
qed

lemma get_prop_property:
  "v \<noteq> JNull \<Longrightarrow> v \<noteq> JUndefined \<Longrightarrow> get_prop v name = Inr (property v name)"
  by (cases v) (simp_all add: property_def)

lemma ToBoolean_not_null: "ToBoolean v \<Longrightarrow> v \<noteq> JNull \<and> v \<noteq> JUndefined"
  by (cases v) simp_all

lemma handleWebhook_frame:
  "snd (handleWebhook P request env w) = w
   \<or> snd (handleWebhook P request env w) = w\<lparr>events := events w @ [Parsed (req_text request)]\<rparr>"
  by (auto simp: handleWebhook_def Let_def io_bind_def io_of_def JSON_parse_io_def
        split: sum.split option.split prod.split)

lemma worker_fetch_webhook:
  assumes "req_pathname request = str ''/webhook''"
  shows "snd (worker_fetch P net request env w) = snd (handleWebhook P request env w)"
proof -
  have "str ''/webhook'' \<noteq> str ''/update''" by (simp add: str_def)
  with assms show ?thesis
    by (simp add: worker_fetch_def split: prod.split sum.split)
qed

text \<open>
  C10. Whatever the request, a run of the Webhook Flow leaves the state of the remote
  service as it was and adds no \<^verbatim>\<open>fetch\<close> to the log: its log is unchanged, or extended
  by the one \<^verbatim>\<open>JSON.parse\<close> of the request body. The same holds for a request that the
  dispatcher routes to the flow, whatever the network is.
\<close>

theorem handleWebhook_no_network:
  "remote (snd (handleWebhook P request env w)) = remote w
   \<and> (events (snd (handleWebhook P request env w)) = events w
      \<or> events (snd (handleWebhook P request env w)) = events w @ [Parsed (req_text request)])
   \<and> (req_pathname request = str ''/webhook'' \<longrightarrow>
        remote (snd (worker_fetch P net request env w)) = remote w
        \<and> (events (snd (worker_fetch P net request env w)) = events w
           \<or> events (snd (worker_fetch P net request env w))
              = events w @ [Parsed (req_text request)]))"
  using handleWebhook_frame [of P request env w]
  by (auto simp: worker_fetch_webhook)

theorem handleWebhook_no_network_witness:
  \<open>req_pathname (test_request (str ''POST'') (str ''/webhook'') (Some (str ''sha256=6b0a''))
                   (str ''{"action":"requested"}'')) = str ''/webhook''
   \<and> remote (snd (worker_fetch test_platform (test_remote None None)
                    (test_request (str ''POST'') (str ''/webhook'') (Some (str ''sha256=6b0a''))
                       (str ''{"action":"requested"}''))
                    test_env test_world)) = 0
   \<and> (events (snd (worker_fetch test_platform (test_remote None None)
                    (test_request (str ''POST'') (str ''/webhook'') (Some (str ''sha256=6b0a''))
                       (str ''{"action":"requested"}''))
                    test_env test_world)) = []
      \<or> events (snd (worker_fetch test_platform (test_remote None None)
                    (test_request (str ''POST'') (str ''/webhook'') (Some (str ''sha256=6b0a''))
                       (str ''{"action":"requested"}''))
                    test_env test_world)) = [Parsed (str ''{"action":"requested"}'')])\<close>
proof -
  let ?r = \<open>test_request (str ''POST'') (str ''/webhook'') (Some (str ''sha256=6b0a''))
              (str ''{"action":"requested"}'')\<close>
  have p: "req_pathname ?r = str ''/webhook''" by (simp add: test_request_def)
  have t: "req_text ?r = str ''{\"action\":\"requested\"}''" by (simp add: test_request_def)
  from handleWebhook_no_network [of test_platform ?r test_env test_world "test_remote None None"] p
  show ?thesis unfolding t by (simp add: test_world_def)
qed

lemma handleWebhook_verified:
  assumes post: "req_method request = str ''POST''"
    and valid: "verifySignature P (req_text request)
                  (req_header request (str ''x-hub-signature-256'')) (WEBHOOK_SECRET env) = Inr True"
    and parsed: "JSON_parse P (req_text request) = Some payload"
    and payload: "payload \<noteq> JNull" "payload \<noteq> JUndefined"
  shows "handleWebhook P request env w =
           (Inr (jsonResponse P
                   (if property payload (str ''action'') = JStr (str ''completed'')
                       \<and> ToBoolean (property payload (str ''workflow_run''))
                    then JObj [(str ''workflow'', property (property payload (str ''workflow_run'')) (str ''name'')),
                               (str ''status'', property (property payload (str ''workflow_run'')) (str ''status'')),
                               (str ''conclusion'', property (property payload (str ''workflow_run'')) (str ''conclusion'')),
                               (str ''commit'', property (property payload (str ''workflow_run'')) (str ''head_sha''))]
                    else JObj [(str ''message'', JStr (str ''Ignored event''))])
                   200),
            w\<lparr>events := events w @ [Parsed (req_text request)]\<rparr>)"
proof -
  let ?run = "property payload (str ''workflow_run'')"
  have g: "get_prop payload name = Inr (property payload name)" for name
    using payload by (rule get_prop_property)
  have p: "io_bind (JSON_parse_io P (req_text request)) f w
             = f payload (w\<lparr>events := events w @ [Parsed (req_text request)]\<rparr>)" for f
    using parsed by (simp add: JSON_parse_io_def io_bind_def)
  show ?thesis
  proof (cases "property payload (str ''action'') = JStr (str ''completed'') \<and> ToBoolean ?run")
    case True
    then have "?run \<noteq> JNull" "?run \<noteq> JUndefined" using ToBoolean_not_null by blast+
    then have r: "get_prop ?run name = Inr (property ?run name)" for name
      by (rule get_prop_property)
    from True post valid show ?thesis
      by (simp add: handleWebhook_def Let_def io_bind_Inr p g r io_of_def
            summary_object_def)
  next
    case False
    with post valid show ?thesis
      by (auto simp: handleWebhook_def Let_def io_bind_Inr p g io_of_def
            ignored_object_def)
  qed
qed

text \<open>
  C7. A request to the Webhook Flow that is not a POST is answered with
  status 200 and the plain text \<^verbatim>\<open>OK\<close>. A verified POST whose body parses to a value
  other than \<^verbatim>\<open>null\<close> is answered with the summary
  \<^verbatim>\<open>{workflow, status, conclusion, commit}\<close>, copied from \<^verbatim>\<open>workflow_run\<close>'s \<^verbatim>\<open>name\<close>,
  \<^verbatim>\<open>status\<close>, \<^verbatim>\<open>conclusion\<close> and \<^verbatim>\<open>head_sha\<close>, if and only if \<^verbatim>\<open>action\<close> is the string
  \<^verbatim>\<open>completed\<close> and \<^verbatim>\<open>workflow_run\<close> is truthy (an object, but also any non-empty
  string, non-zero number or \<^verbatim>\<open>true\<close>); otherwise with \<^verbatim>\<open>{message: "Ignored event"}\<close>.
\<close>

theorem handleWebhook_classification:
  "(req_method request \<noteq> str ''POST'' \<longrightarrow>
      handleWebhook P request env w =
        (Inr \<lparr>status = 200,
              headers = [(str ''content-type'', str ''text/plain;charset=UTF-8'')],
              body = Some (str ''OK'')\<rparr>,
         w))
   \<and> (req_method request = str ''POST''
      \<and> verifySignature P (req_text request)
           (req_header request (str ''x-hub-signature-256'')) (WEBHOOK_SECRET env) = Inr True
      \<and> JSON_parse P (req_text request) = Some payload
      \<and> payload \<noteq> JNull \<and> payload \<noteq> JUndefined \<longrightarrow>
      handleWebhook P request env w =
        (Inr (jsonResponse P
                (if property payload (str ''action'') = JStr (str ''completed'')
                    \<and> ToBoolean (property payload (str ''workflow_run''))
                 then JObj [(str ''workflow'', property (property payload (str ''workflow_run'')) (str ''name'')),
                            (str ''status'', property (property payload (str ''workflow_run'')) (str ''status'')),
                            (str ''conclusion'', property (property payload (str ''workflow_run'')) (str ''conclusion'')),
                            (str ''commit'', property (property payload (str ''workflow_run'')) (str ''head_sha''))]
                 else JObj [(str ''message'', JStr (str ''Ignored event''))])
                200),
         w\<lparr>events := events w @ [Parsed (req_text request)]\<rparr>))"
proof (intro conjI impI)
  assume "req_method request \<noteq> str ''POST''"
  then show "handleWebhook P request env w =
        (Inr \<lparr>status = 200,
              headers = [(str ''content-type'', str ''text/plain;charset=UTF-8'')],
              body = Some (str ''OK'')\<rparr>,
         w)"
    by (simp add: handleWebhook_def io_of_def textResponse_def)
qed (simp add: handleWebhook_verified)

lemma test_hmac_eval:
  "hmac_sha256 test_platform key data = (if key = [] then None else Some [sum_list key, sum_list data])"
  by (simp add: test_platform_def test_hmac_def)

lemmas encode_eval =
  TextEncoder_encode_def str_def utf8_octets_def is_high_surrogate_def is_low_surrogate_def

lemmas token_eval = signature_token_def hex_lower_def hex_digit_lower_def str_def

theorem handleWebhook_classification_witness:
  \<open>handleWebhook test_platform
      (test_request (str ''GET'') (str ''/webhook'') None []) test_env test_world
    = (Inr \<lparr>status = 200,
            headers = [(str ''content-type'', str ''text/plain;charset=UTF-8'')],
            body = Some (str ''OK'')\<rparr>,
       test_world)
   \<and> handleWebhook test_platform
        (test_request (str ''POST'') (str ''/webhook'') (Some (str ''sha256=6bae''))
           (str ''{"action":"completed","workflow_run":{"name":"CI","status":"completed","conclusion":"success","head_sha":"xyz"}}''))
        test_env test_world
      = (Inr \<lparr>status = 200,
              headers = [(str ''Content-Type'', str ''application/json'')],
              body = Some (str ''{"workflow":"CI","status":"completed","conclusion":"success","commit":"xyz"}'')\<rparr>,
         \<lparr>remote = 0,
          events = [Parsed (str ''{"action":"completed","workflow_run":{"name":"CI","status":"completed","conclusion":"success","head_sha":"xyz"}}'')]\<rparr>)\<close>
proof -
  let ?t = \<open>str ''{"action":"completed","workflow_run":{"name":"CI","status":"completed","conclusion":"success","head_sha":"xyz"}}''\<close>
  let ?g = "test_request (str ''GET'') (str ''/webhook'') None []"
  let ?p = "test_request (str ''POST'') (str ''/webhook'') (Some (str ''sha256=6bae'')) ?t"
  let ?run = "JObj [(str ''name'', JStr (str ''CI'')), (str ''status'', JStr (str ''completed'')),
                    (str ''conclusion'', JStr (str ''success'')), (str ''head_sha'', JStr (str ''xyz''))]"
  let ?payload = "JObj [(str ''action'', JStr (str ''completed'')), (str ''workflow_run'', ?run)]"
  have g: "req_method ?g \<noteq> str ''POST''" by (simp add: test_request_def str_def)
  have m: "req_method ?p = str ''POST''" by (simp add: test_request_def)
  have h: "hmac_sha256 test_platform (TextEncoder_encode (str ''k'')) (TextEncoder_encode ?t)
             = Some [0x6b, 0xae]"
    by (simp add: test_hmac_eval encode_eval)
  have tok: "signature_token [0x6b, 0xae] = str ''sha256=6bae''"
    by (simp add: token_eval)
  have v: "verifySignature test_platform (req_text ?p) (req_header ?p (str ''x-hub-signature-256''))
             (WEBHOOK_SECRET test_env) = Inr True"
    using verifySignature_present [OF h, of "Some (str ''sha256=6bae'')"]
    by (simp add: test_request_def test_env_def tok)
  have j: "JSON_parse test_platform (req_text ?p) = Some ?payload"
    by (simp add: test_request_def test_platform_def test_documents_def str_def)
  have a: "property ?payload (str ''action'') = JStr (str ''completed'')"
    and r: "property ?payload (str ''workflow_run'') = ?run"
    by (simp_all add: property_def str_def)
  have f: "property ?run (str ''name'') = JStr (str ''CI'')"
    "property ?run (str ''status'') = JStr (str ''completed'')"
    "property ?run (str ''conclusion'') = JStr (str ''success'')"
    "property ?run (str ''head_sha'') = JStr (str ''xyz'')"
    by (simp_all add: property_def str_def)
  have b: \<open>JSON_stringify test_platform
             (JObj [(str ''workflow'', JStr (str ''CI'')), (str ''status'', JStr (str ''completed'')),
                    (str ''conclusion'', JStr (str ''success'')), (str ''commit'', JStr (str ''xyz''))])
           = Some (str ''{"workflow":"CI","status":"completed","conclusion":"success","commit":"xyz"}'')\<close>
    by (simp add: JSON_stringify_def test_platform_def test_render_def test_documents_def str_def)
  note c7 = handleWebhook_classification [of _ test_platform test_env test_world ?payload]
  have 1: "handleWebhook test_platform ?g test_env test_world =
        (Inr \<lparr>status = 200,
              headers = [(str ''content-type'', str ''text/plain;charset=UTF-8'')],
              body = Some (str ''OK'')\<rparr>,
         test_world)"
    using c7 [of ?g] g by blast
  have 2: "handleWebhook test_platform ?p test_env test_world =
        (Inr (jsonResponse test_platform
                (if property ?payload (str ''action'') = JStr (str ''completed'')
                    \<and> ToBoolean (property ?payload (str ''workflow_run''))
                 then JObj [(str ''workflow'', property (property ?payload (str ''workflow_run'')) (str ''name'')),
                            (str ''status'', property (property ?payload (str ''workflow_run'')) (str ''status'')),
                            (str ''conclusion'', property (property ?payload (str ''workflow_run'')) (str ''conclusion'')),
                            (str ''commit'', property (property ?payload (str ''workflow_run'')) (str ''head_sha''))]
                 else JObj [(str ''message'', JStr (str ''Ignored event''))])
                200),
         test_world\<lparr>events := events test_world @ [Parsed (req_text ?p)]\<rparr>)"
    using c7 [of ?p] m v j by blast
  have t: "req_text ?p = ?t" by (simp add: test_request_def)
  show ?thesis
    unfolding 1 2 a r f t
    by (simp add: jsonResponse_def b test_world_def)
qed

theorem handleWebhook_classification_counterexample:
  \<open>fst (handleWebhook test_platform
          (test_request (str ''POST'') (str ''/webhook'') (Some (str ''sha256=6bff''))
             (str ''{"action":"completed","workflow_run":1}''))
          test_env test_world)
     = Inr \<lparr>status = 200,
            headers = [(str ''Content-Type'', str ''application/json'')],
            body = Some (str ''{}'')\<rparr>
   \<and> jsonResponse test_platform (JObj [(str ''message'', JStr (str ''Ignored event''))]) 200
     = \<lparr>status = 200,
        headers = [(str ''Content-Type'', str ''application/json'')],
        body = Some (str ''{"message":"Ignored event"}'')\<rparr>
   \<and> fst (handleWebhook test_platform
          (test_request (str ''POST'') (str ''/webhook'') (Some (str ''sha256=6bff''))
             (str ''{"action":"completed","workflow_run":1}''))
          test_env test_world)
     \<noteq> Inr (jsonResponse test_platform (JObj [(str ''message'', JStr (str ''Ignored event''))]) 200)\<close>
proof -
  let ?t = \<open>str ''{"action":"completed","workflow_run":1}''\<close>
  let ?p = "test_request (str ''POST'') (str ''/webhook'') (Some (str ''sha256=6bff'')) ?t"
  let ?payload = "JObj [(str ''action'', JStr (str ''completed'')), (str ''workflow_run'', JNum (Finite 1))]"
  have m: "req_method ?p = str ''POST''" by (simp add: test_request_def)
  have h: "hmac_sha256 test_platform (TextEncoder_encode (str ''k'')) (TextEncoder_encode ?t)
             = Some [0x6b, 0xff]"
    by (simp add: test_hmac_eval encode_eval)
  have tok: "signature_token [0x6b, 0xff] = str ''sha256=6bff''"
    by (simp add: token_eval)
  have v: "verifySignature test_platform (req_text ?p) (req_header ?p (str ''x-hub-signature-256''))
             (WEBHOOK_SECRET test_env) = Inr True"
    using verifySignature_present [OF h, of "Some (str ''sha256=6bff'')"]
    by (simp add: test_request_def test_env_def tok)
  have j: "JSON_parse test_platform (req_text ?p) = Some ?payload"
    by (simp add: test_request_def test_platform_def test_documents_def str_def)
  have a: "property ?payload (str ''action'') = JStr (str ''completed'')"
    and r: "property ?payload (str ''workflow_run'') = JNum (Finite 1)"
    by (simp_all add: property_def str_def)
  have f: "property (JNum (Finite 1)) name = JUndefined" for name
    by (simp add: property_def)
  have b: \<open>JSON_stringify test_platform
             (JObj [(str ''workflow'', JUndefined), (str ''status'', JUndefined),
                    (str ''conclusion'', JUndefined), (str ''commit'', JUndefined)])
           = Some (str ''{}'')\<close>
    by (simp add: JSON_stringify_def test_platform_def test_render_def test_documents_def str_def)
  have i: \<open>JSON_stringify test_platform (JObj [(str ''message'', JStr (str ''Ignored event''))])
           = Some (str ''{"message":"Ignored event"}'')\<close>
    by (simp add: JSON_stringify_def test_platform_def test_render_def test_documents_def str_def)
  have ne: \<open>str ''{}'' \<noteq> str ''{"message":"Ignored event"}''\<close>
    by (simp add: str_def)
  have "fst (handleWebhook test_platform ?p test_env test_world)
          = Inr (jsonResponse test_platform
                   (JObj [(str ''workflow'', JUndefined), (str ''status'', JUndefined),
                          (str ''conclusion'', JUndefined), (str ''commit'', JUndefined)])
                   200)"
    using handleWebhook_verified [OF m v j, of test_world]
    by (simp add: a r f)
  then show ?thesis
    using ne by (simp add: jsonResponse_def b i)
qed

section \<open>Properties of the Update Flow\<close>

lemma handleUpdate_parsed:
  assumes "req_method request = str ''POST''" "JSON_parse P (req_text request) = Some v"
    "get_prop v (str ''content'') = Inr x"
  shows "handleUpdate P net request env w =
     (if \<not> ToBoolean x
      then (Inr (jsonResponse P (error_object (str ''Missing content'')) 400),
            w\<lparr>events := events w @ [Parsed (req_text request)]\<rparr>)
      else
        io_bind (safeGitHubRequest P net (read_url env) env no_options) (\<lambda>fileData.
        io_bind (io_of (get_prop fileData (str ''sha''))) (\<lambda>sha.
        if \<not> ToBoolean sha
        then io_of (Inl (Error (str ''File not found or no permission'')))
        else
          io_bind (io_of (base64Encode P x)) (\<lambda>encoded.
          io_bind (safeGitHubRequest P net (write_url env) env (write_options P env encoded sha))
            (\<lambda>updateResult.
          io_bind (io_of (get_prop updateResult (str ''commit''))) (\<lambda>commit.
          io_bind (io_of (get_prop_optional commit (str ''sha''))) (\<lambda>commit_sha.
          io_of (Inr (jsonResponse P (update_object commit_sha) 200))))))))
          (w\<lparr>events := events w @ [Parsed (req_text request)]\<rparr>))"
proof -
  have p: "io_bind (safeParseRequestJSON P request) f w
             = f v (w\<lparr>events := events w @ [Parsed (req_text request)]\<rparr>)" for f
    using assms(2) by (simp add: io_bind_def safeParseRequestJSON_eq)
  show ?thesis
    using assms(1,3) by (simp add: handleUpdate_def p io_bind_Inr io_of_def)
qed

lemma handleUpdate_not_JSON:
  assumes "req_method request = str ''POST''" "JSON_parse P (req_text request) = None"
  shows "handleUpdate P net request env w =
           (Inl (Error (str ''Invalid JSON body'')),
            w\<lparr>events := events w @ [Parsed (req_text request)]\<rparr>)"
  using assms by (simp add: handleUpdate_def io_bind_def safeParseRequestJSON_eq)



lemma worker_fetch_update:
  assumes "req_pathname request = str ''/update''"
  shows "worker_fetch P net request env w =
           (case handleUpdate P net request env w of
              (Inr r, w') \<Rightarrow> (r, w')
            | (Inl err, w') \<Rightarrow>
                (jsonResponse P
                   (error_object (if message P err \<noteq> [] then message P err else str ''Internal Error''))
                   500,
                 w'))"
  using assms by (simp add: worker_fetch_def)

text \<open>
  C5. For a POST to \<^verbatim>\<open>/update\<close>: when the body is not JSON the flow throws
  \<^verbatim>\<open>Invalid JSON body\<close>, which the dispatcher answers with status 500; when the parsed
  body has no truthy \<^verbatim>\<open>content\<close> the flow answers with status 400. In both cases the run
  has parsed the body and done nothing else: no call to the remote API is made and
  the remote state is as it was.
\<close>

theorem update_rejects_before_network:
  assumes "req_pathname request = str ''/update''" "req_method request = str ''POST''"
  shows "(JSON_parse P (req_text request) = None \<longrightarrow>
            worker_fetch P net request env w =
              (\<lparr>status = 500,
                headers = [(str ''Content-Type'', str ''application/json'')],
                body = JSON_stringify P (JObj [(str ''error'', JStr (str ''Invalid JSON body''))])\<rparr>,
               w\<lparr>events := events w @ [Parsed (req_text request)]\<rparr>))
         \<and> (JSON_parse P (req_text request) = Some v \<and> get_prop v (str ''content'') = Inr x
              \<and> \<not> ToBoolean x \<longrightarrow>
            worker_fetch P net request env w =
              (\<lparr>status = 400,
                headers = [(str ''Content-Type'', str ''application/json'')],
                body = JSON_stringify P (JObj [(str ''error'', JStr (str ''Missing content''))])\<rparr>,
               w\<lparr>events := events w @ [Parsed (req_text request)]\<rparr>))"
proof -
  have ne: "str ''Invalid JSON body'' \<noteq> []" by (simp add: str_def)
  show ?thesis
    using assms(2) ne
    by (simp add: worker_fetch_update [OF assms(1)] handleUpdate_not_JSON handleUpdate_parsed
          jsonResponse_def error_object_def)
qed

theorem update_rejects_before_network_counterexample:
  \<open>JSON_parse test_platform (str ''not json'') = None
   \<and> status (fst (worker_fetch test_platform (test_remote None None)
                    (test_request (str ''POST'') (str ''/update'') None (str ''not json''))
                    test_env test_world)) = 500
   \<and> status (fst (worker_fetch test_platform (test_remote None None)
                    (test_request (str ''POST'') (str ''/update'') None (str ''not json''))
                    test_env test_world)) \<noteq> 400\<close>
proof -
  let ?r = "test_request (str ''POST'') (str ''/update'') None (str ''not json'')"
  have p: "req_pathname ?r = str ''/update''" and m: "req_method ?r = str ''POST''"
    by (simp_all add: test_request_def)
  have j: "JSON_parse test_platform (req_text ?r) = None"
    by (simp add: test_request_def test_platform_def test_documents_def str_def)
  have ne: "str ''Invalid JSON body'' \<noteq> []" by (simp add: str_def)
  have "status (fst (worker_fetch test_platform (test_remote None None) ?r test_env test_world)) = 500"
    using ne
    by (simp add: worker_fetch_update [OF p] handleUpdate_not_JSON [OF m j] jsonResponse_def)
  with j show ?thesis by (simp add: test_request_def)
qed

theorem update_rejects_before_network_witness:
  \<open>worker_fetch test_platform (test_remote None None)
      (test_request (str ''POST'') (str ''/update'') None (str ''not json'')) test_env test_world
    = (\<lparr>status = 500,
        headers = [(str ''Content-Type'', str ''application/json'')],
        body = Some (str ''{"error":"Invalid JSON body"}'')\<rparr>,
       \<lparr>remote = 0, events = [Parsed (str ''not json'')]\<rparr>)
   \<and> worker_fetch test_platform (test_remote None None)
        (test_request (str ''POST'') (str ''/update'') None (str ''{}'')) test_env test_world
      = (\<lparr>status = 400,
          headers = [(str ''Content-Type'', str ''application/json'')],
          body = Some (str ''{"error":"Missing content"}'')\<rparr>,
         \<lparr>remote = 0, events = [Parsed (str ''{}'')]\<rparr>)\<close>
proof -
  let ?bad = "test_request (str ''POST'') (str ''/update'') None (str ''not json'')"
  let ?empty = "test_request (str ''POST'') (str ''/update'') None (str ''{}'')"
  have p: "req_pathname ?bad = str ''/update''" "req_pathname ?empty = str ''/update''"
    and m: "req_method ?bad = str ''POST''" "req_method ?empty = str ''POST''"
    by (simp_all add: test_request_def)
  have j1: "JSON_parse test_platform (req_text ?bad) = None"
    by (simp add: test_request_def test_platform_def test_documents_def str_def)
  have j2: "JSON_parse test_platform (req_text ?empty) = Some (JObj [])"
    by (simp add: test_request_def test_platform_def test_documents_def str_def)
  have g: "get_prop (JObj []) (str ''content'') = Inr JUndefined" by simp
  have f: "\<not> ToBoolean JUndefined" by simp
  have b1: \<open>JSON_stringify test_platform (JObj [(str ''error'', JStr (str ''Invalid JSON body''))])
            = Some (str ''{"error":"Invalid JSON body"}'')\<close>
    and b2: \<open>JSON_stringify test_platform (JObj [(str ''error'', JStr (str ''Missing content''))])
            = Some (str ''{"error":"Missing content"}'')\<close>
    by (simp_all add: JSON_stringify_def test_platform_def test_render_def test_documents_def str_def)
  have t: "req_text ?bad = str ''not json''" "req_text ?empty = str ''{}''"
    by (simp_all add: test_request_def)
  note c5 = update_rejects_before_network [where P = test_platform and net = "test_remote None None"
              and env = test_env and w = test_world]
  from c5 [OF p(1) m(1)] j1 c5 [OF p(2) m(2), of "JObj []" JUndefined] j2 g f
  show ?thesis
    unfolding b1 b2 t by (simp add: test_world_def)
qed

lemma request_init_read:
  "request_init env (read_url env) no_options =
     \<lparr>call_url = read_url env,
      call_method = None,
      call_headers =
        [(str ''Authorization'', str ''Bearer '' @ GH_TOKEN env),
         (str ''Accept'', str ''application/vnd.github+json''),
         (str ''Content-Type'', str ''application/json''),
         (str ''User-Agent'', str ''cloudflare-worker'')],
      call_body = None\<rparr>"
  by (simp add: request_init_def no_options_def spread_def)

lemma request_init_write:
  "request_init env (write_url env) (write_options P env encoded sha) =
     \<lparr>call_url = write_url env,
      call_method = Some (str ''PUT''),
      call_headers =
        [(str ''Authorization'', str ''Bearer '' @ GH_TOKEN env),
         (str ''Accept'', str ''application/vnd.github+json''),
         (str ''Content-Type'', str ''application/json''),
         (str ''User-Agent'', str ''cloudflare-worker'')],
      call_body =
        JSON_stringify P
          (JObj [(str ''message'', JStr (str ''auto update images.txt'')),
                 (str ''content'', JStr encoded),
                 (str ''sha'', sha),
                 (str ''branch'', JStr (BRANCH env))])\<rparr>"
  by (simp add: request_init_def write_options_def spread_def write_object_def)

lemma handleUpdate_read:
  assumes "req_method request = str ''POST''" "JSON_parse P (req_text request) = Some v"
    "get_prop v (str ''content'') = Inr x" "ToBoolean x"
    "net (request_init env (read_url env) no_options) (remote w) = (Some r, s1)"
    "reply_ok r" "JSON_parse P (reply_text r) = Some fileData"
    "get_prop fileData (str ''sha'') = Inr sha"
  shows "handleUpdate P net request env w =
     (if \<not> ToBoolean sha
      then (Inl (Error (str ''File not found or no permission'')),
            \<lparr>remote = s1,
             events = events w @ [Parsed (req_text request),
                                  Fetched (request_init env (read_url env) no_options),
                                  Parsed (reply_text r)]\<rparr>)
      else
        io_bind (io_of (base64Encode P x)) (\<lambda>encoded.
        io_bind (safeGitHubRequest P net (write_url env) env (write_options P env encoded sha))
          (\<lambda>updateResult.
        io_bind (io_of (get_prop updateResult (str ''commit''))) (\<lambda>commit.
        io_bind (io_of (get_prop_optional commit (str ''sha''))) (\<lambda>commit_sha.
        io_of (Inr (jsonResponse P (update_object commit_sha) 200))))))
          \<lparr>remote = s1,
           events = events w @ [Parsed (req_text request),
                                Fetched (request_init env (read_url env) no_options),
                                Parsed (reply_text r)]\<rparr>)"
proof -
  let ?w0 = "w\<lparr>events := events w @ [Parsed (req_text request)]\<rparr>"
  have n: "net (request_init env (read_url env) no_options) (remote ?w0) = (Some r, s1)"
    using assms(5) by simp
  have g: "safeGitHubRequest P net (read_url env) env no_options ?w0 =
             (Inr fileData,
              \<lparr>remote = s1,
               events = events w @ [Parsed (req_text request),
                                    Fetched (request_init env (read_url env) no_options),
                                    Parsed (reply_text r)]\<rparr>)"
    using safeGitHubRequest_reply [where net = net and w = ?w0 and P = P, OF n] assms(6,7)
    by simp
  have b: "io_bind (safeGitHubRequest P net (read_url env) env no_options) f ?w0
             = f fileData \<lparr>remote = s1,
                           events = events w @ [Parsed (req_text request),
                                                Fetched (request_init env (read_url env) no_options),
                                                Parsed (reply_text r)]\<rparr>" for f
    by (simp add: io_bind_def g)
  show ?thesis
    using assms(4,8)
    by (simp add: handleUpdate_parsed [OF assms(1,2,3)] b io_bind_Inr io_of_def)
qed

lemma handleUpdate_read_throws:
  assumes "req_method request = str ''POST''" "JSON_parse P (req_text request) = Some v"
    "get_prop v (str ''content'') = Inr x" "ToBoolean x"
    "safeGitHubRequest P net (read_url env) env no_options
       (w\<lparr>events := events w @ [Parsed (req_text request)]\<rparr>) = (Inl e, w')"
  shows "handleUpdate P net request env w = (Inl e, w')"
  using assms(4)
  by (simp add: handleUpdate_parsed [OF assms(1,2,3)] io_bind_def assms(5))

lemma handleUpdate_sha_throws:
  assumes "req_method request = str ''POST''" "JSON_parse P (req_text request) = Some v"
    "get_prop v (str ''content'') = Inr x" "ToBoolean x"
    "safeGitHubRequest P net (read_url env) env no_options
       (w\<lparr>events := events w @ [Parsed (req_text request)]\<rparr>) = (Inr d, w')"
    "get_prop d (str ''sha'') = Inl e"
  shows "handleUpdate P net request env w = (Inl e, w')"
  using assms(4)
  by (simp add: handleUpdate_parsed [OF assms(1,2,3)] io_bind_def assms(5,6) io_of_def)

lemma handleUpdate_sha_falsy:
  assumes "req_method request = str ''POST''" "JSON_parse P (req_text request) = Some v"
    "get_prop v (str ''content'') = Inr x" "ToBoolean x"
    "safeGitHubRequest P net (read_url env) env no_options
       (w\<lparr>events := events w @ [Parsed (req_text request)]\<rparr>) = (Inr d, w')"
    "get_prop d (str ''sha'') = Inr s" "\<not> ToBoolean s"
  shows "handleUpdate P net request env w =
           (Inl (Error (str ''File not found or no permission'')), w')"
  using assms(4,7)
  by (simp add: handleUpdate_parsed [OF assms(1,2,3)] io_bind_def assms(5,6) io_of_def)

lemma handleUpdate_without_sha:
  assumes "req_method request = str ''POST''"
    and "JSON_parse P (req_text request) = Some v"
    and "get_prop v (str ''content'') = Inr x" "ToBoolean x"
    and "net (request_init env (read_url env) no_options) (remote w) = (reply, s1)"
    and "\<forall>r d s. reply = Some r \<and> reply_ok r \<and> JSON_parse P (reply_text r) = Some d
                   \<and> get_prop d (str ''sha'') = Inr s \<longrightarrow> \<not> ToBoolean s"
  shows "\<exists>e. handleUpdate P net request env w =
           (Inl e,
            \<lparr>remote = s1,
             events = events w @ [Parsed (req_text request),
                                  Fetched (request_init env (read_url env) no_options)]
                        @ (case reply of None \<Rightarrow> [] | Some r \<Rightarrow> [Parsed (reply_text r)])\<rparr>)
         \<and> (\<forall>r d s. reply = Some r \<and> reply_ok r \<and> JSON_parse P (reply_text r) = Some d
                      \<and> get_prop d (str ''sha'') = Inr s
                \<longrightarrow> e = Error (str ''File not found or no permission''))"
proof -
  let ?w0 = "w\<lparr>events := events w @ [Parsed (req_text request)]\<rparr>"
  have n: "net (request_init env (read_url env) no_options) (remote ?w0) = (reply, s1)"
    using assms(5) by simp
  note pre = assms(1,2,3,4)
  show ?thesis
  proof (cases reply)
    case None
    from safeGitHubRequest_rejected [where net = net and w = ?w0 and P = P, OF n [unfolded None]]
    have "handleUpdate P net request env w =
            (Inl NetworkError,
             \<lparr>remote = s1,
              events = events ?w0 @ [Fetched (request_init env (read_url env) no_options)]\<rparr>)"
      by (rule handleUpdate_read_throws [OF pre])
    with None show ?thesis by simp
  next
    case (Some r)
    note g = safeGitHubRequest_reply [where net = net and w = ?w0 and P = P, OF n [unfolded Some]]
    show ?thesis
    proof (cases "JSON_parse P (reply_text r)")
      case None
      from g None
      have "safeGitHubRequest P net (read_url env) env no_options ?w0 =
              (Inl (Error (nonJSON_message (reply_text r))),
               \<lparr>remote = s1,
                events = events ?w0 @ [Fetched (request_init env (read_url env) no_options),
                                       Parsed (reply_text r)]\<rparr>)"
        by simp
      from handleUpdate_read_throws [OF pre this] Some None show ?thesis by simp
    next
      case d: (Some d)
      show ?thesis
      proof (cases "reply_ok r")
        case False
        from g d False
        have "safeGitHubRequest P net (read_url env) env no_options ?w0 =
                (Inl (Error (apiError_message P (reply_status r) d)),
                 \<lparr>remote = s1,
                  events = events ?w0 @ [Fetched (request_init env (read_url env) no_options),
                                         Parsed (reply_text r)]\<rparr>)"
          by simp
        from handleUpdate_read_throws [OF pre this] Some d False show ?thesis by simp
      next
        case True
        from g d True
        have ok: "safeGitHubRequest P net (read_url env) env no_options ?w0 =
                (Inr d,
                 \<lparr>remote = s1,
                  events = events ?w0 @ [Fetched (request_init env (read_url env) no_options),
                                         Parsed (reply_text r)]\<rparr>)"
          by simp
        show ?thesis
        proof (cases "get_prop d (str ''sha'')")
          case (Inl e)
          from handleUpdate_sha_throws [OF pre ok Inl] Some d True Inl show ?thesis by simp
        next
          case (Inr s)
          from assms(6) Some True d Inr have "\<not> ToBoolean s" by blast
          from handleUpdate_sha_falsy [OF pre ok Inr this] Some d True Inr show ?thesis by simp
        qed
      qed
    qed
  qed
qed

text \<open>
  C4. In a run of the Update Flow with a truthy \<^verbatim>\<open>content\<close>, whenever the remote read
  does not yield a truthy \<^verbatim>\<open>sha\<close> (the fetch is rejected, the reply is not JSON, its
  status is not a success, its value is \<^verbatim>\<open>null\<close>, or the \<^verbatim>\<open>sha\<close> of its value is absent or
  falsy), the flow fails, which the dispatcher answers with status 500, and no write
  call is made: what the run has done is the parse of the request body, one call to
  the remote API, the read, which has no method (a GET) and no body, and the parse of
  the reply when there is one. When the read is answered with a success status and a
  JSON value (other than \<^verbatim>\<open>null\<close>) whose \<^verbatim>\<open>sha\<close> is absent or falsy, what is thrown is
  the message \<^verbatim>\<open>File not found or no permission\<close>.
\<close>

theorem handleUpdate_no_sha:
  assumes "req_method request = str ''POST''"
    and "JSON_parse P (req_text request) = Some v"
    and "get_prop v (str ''content'') = Inr x" "ToBoolean x"
    and "net (request_init env (read_url env) no_options) (remote w) = (reply, s1)"
    and "\<forall>r d s. reply = Some r \<and> reply_ok r \<and> JSON_parse P (reply_text r) = Some d
                   \<and> get_prop d (str ''sha'') = Inr s \<longrightarrow> \<not> ToBoolean s"
  shows "(\<exists>e. fst (handleUpdate P net request env w) = Inl e)
         \<and> snd (handleUpdate P net request env w) =
             \<lparr>remote = s1,
              events = events w @ [Parsed (req_text request),
                                   Fetched (request_init env (read_url env) no_options)]
                         @ (case reply of None \<Rightarrow> [] | Some r \<Rightarrow> [Parsed (reply_text r)])\<rparr>
         \<and> call_method (request_init env (read_url env) no_options) = None
         \<and> call_body (request_init env (read_url env) no_options) = None
         \<and> (req_pathname request = str ''/update'' \<longrightarrow>
              status (fst (worker_fetch P net request env w)) = 500
              \<and> snd (worker_fetch P net request env w) = snd (handleUpdate P net request env w))
         \<and> (reply = Some r \<and> reply_ok r \<and> JSON_parse P (reply_text r) = Some fileData
              \<and> get_prop fileData (str ''sha'') = Inr sha \<longrightarrow>
              handleUpdate P net request env w =
                (Inl (Error (str ''File not found or no permission'')),
                 \<lparr>remote = s1,
                  events = events w @ [Parsed (req_text request),
                                       Fetched (request_init env (read_url env) no_options),
                                       Parsed (reply_text r)]\<rparr>)
              \<and> (req_pathname request = str ''/update'' \<longrightarrow>
                   fst (worker_fetch P net request env w) =
                     \<lparr>status = 500,
                      headers = [(str ''Content-Type'', str ''application/json'')],
                      body = JSON_stringify P
                               (JObj [(str ''error'',
                                       JStr (str ''File not found or no permission''))])\<rparr>))"
proof -
  from handleUpdate_without_sha [where net = net and w = w, OF assms]
  obtain e where
    h: "handleUpdate P net request env w =
           (Inl e,
            \<lparr>remote = s1,
             events = events w @ [Parsed (req_text request),
                                  Fetched (request_init env (read_url env) no_options)]
                        @ (case reply of None \<Rightarrow> [] | Some r \<Rightarrow> [Parsed (reply_text r)])\<rparr>)"
    and m: "\<forall>r d s. reply = Some r \<and> reply_ok r \<and> JSON_parse P (reply_text r) = Some d
                      \<and> get_prop d (str ''sha'') = Inr s
                \<longrightarrow> e = Error (str ''File not found or no permission'')"
    by blast
  have ne: "str ''File not found or no permission'' \<noteq> []" by (simp add: str_def)
  have 1: "\<exists>e. fst (handleUpdate P net request env w) = Inl e" by (simp add: h)
  have 2: "snd (handleUpdate P net request env w) =
             \<lparr>remote = s1,
              events = events w @ [Parsed (req_text request),
                                   Fetched (request_init env (read_url env) no_options)]
                         @ (case reply of None \<Rightarrow> [] | Some r \<Rightarrow> [Parsed (reply_text r)])\<rparr>"
    by (simp add: h)
  have 3: "call_method (request_init env (read_url env) no_options) = None"
    and 4: "call_body (request_init env (read_url env) no_options) = None"
    by (simp_all add: request_init_read)
  have 5: "req_pathname request = str ''/update'' \<longrightarrow>
              status (fst (worker_fetch P net request env w)) = 500
              \<and> snd (worker_fetch P net request env w) = snd (handleUpdate P net request env w)"
    by (simp add: worker_fetch_update h jsonResponse_def)
  have 6: "reply = Some r \<and> reply_ok r \<and> JSON_parse P (reply_text r) = Some fileData
              \<and> get_prop fileData (str ''sha'') = Inr sha \<longrightarrow>
              handleUpdate P net request env w =
                (Inl (Error (str ''File not found or no permission'')),
                 \<lparr>remote = s1,
                  events = events w @ [Parsed (req_text request),
                                       Fetched (request_init env (read_url env) no_options),
                                       Parsed (reply_text r)]\<rparr>)
              \<and> (req_pathname request = str ''/update'' \<longrightarrow>
                   fst (worker_fetch P net request env w) =
                     \<lparr>status = 500,
                      headers = [(str ''Content-Type'', str ''application/json'')],
                      body = JSON_stringify P
                               (JObj [(str ''error'',
                                       JStr (str ''File not found or no permission''))])\<rparr>)"
  proof (intro impI, elim conjE)
    assume a: "reply = Some r" "reply_ok r" "JSON_parse P (reply_text r) = Some fileData"
      "get_prop fileData (str ''sha'') = Inr sha"
    with m have e: "e = Error (str ''File not found or no permission'')" by blast
    show "handleUpdate P net request env w =
                (Inl (Error (str ''File not found or no permission'')),
                 \<lparr>remote = s1,
                  events = events w @ [Parsed (req_text request),
                                       Fetched (request_init env (read_url env) no_options),
                                       Parsed (reply_text r)]\<rparr>)
              \<and> (req_pathname request = str ''/update'' \<longrightarrow>
                   fst (worker_fetch P net request env w) =
                     \<lparr>status = 500,
                      headers = [(str ''Content-Type'', str ''application/json'')],
                      body = JSON_stringify P
                               (JObj [(str ''error'',
                                       JStr (str ''File not found or no permission''))])\<rparr>)"
      using ne by (simp add: h e a(1) worker_fetch_update jsonResponse_def error_object_def)
  qed
  from 1 2 3 4 5 6 show ?thesis by blast
qed

lemma test_read:
  "test_remote (Some r) on_write (request_init test_env (read_url test_env) no_options) n
     = (Some r, n)"
  by (simp add: test_remote_def request_init_read)

lemma test_update_request:
  \<open>req_method (test_request (str ''POST'') (str ''/update'') None (str ''{"content":"hello"}''))
     = str ''POST''\<close>
  \<open>JSON_parse test_platform
     (req_text (test_request (str ''POST'') (str ''/update'') None (str ''{"content":"hello"}'')))
     = Some (JObj [(str ''content'', JStr (str ''hello''))])\<close>
  \<open>get_prop (JObj [(str ''content'', JStr (str ''hello''))]) (str ''content'')
     = Inr (JStr (str ''hello''))\<close>
  \<open>req_text (test_request (str ''POST'') (str ''/update'') None (str ''{"content":"hello"}''))
     = str ''{"content":"hello"}''\<close>
  by (simp_all add: test_request_def test_platform_def test_documents_def str_def)

theorem handleUpdate_no_sha_counterexample:
  \<open>fst (handleUpdate test_platform
          (test_remote (Some \<lparr>reply_status = 200, reply_text = str ''{}''\<rparr>) None)
          (test_request (str ''POST'') (str ''/update'') None (str ''{"content":"hello"}''))
          test_env test_world)
     = Inl (Error (str ''File not found or no permission''))
   \<and> str ''File not found or no permission'' \<noteq> str ''file not found or no permission''
   \<and> fst (handleUpdate test_platform
          (test_remote (Some \<lparr>reply_status = 404, reply_text = str ''{"message":"Not Found"}''\<rparr>) None)
          (test_request (str ''POST'') (str ''/update'') None (str ''{"content":"hello"}''))
          test_env test_world)
     = Inl (Error (apiError_message test_platform 404 (JObj [(str ''message'', JStr (str ''Not Found''))])))
   \<and> apiError_message test_platform 404 (JObj [(str ''message'', JStr (str ''Not Found''))])
       \<noteq> str ''file not found or no permission''
   \<and> apiError_message test_platform 404 (JObj [(str ''message'', JStr (str ''Not Found''))])
       \<noteq> str ''File not found or no permission''
   \<and> fst (handleUpdate test_platform
          (test_remote (Some \<lparr>reply_status = 200, reply_text = str ''null''\<rparr>) None)
          (test_request (str ''POST'') (str ''/update'') None (str ''{"content":"hello"}''))
          test_env test_world)
     = Inl TypeError\<close>
proof -
  let ?req = \<open>test_request (str ''POST'') (str ''/update'') None (str ''{"content":"hello"}'')\<close>
  let ?ok = "\<lparr>reply_status = 200, reply_text = str ''{}''\<rparr>"
  let ?nf = \<open>\<lparr>reply_status = 404, reply_text = str ''{"message":"Not Found"}''\<rparr>\<close>
  have c: "ToBoolean (JStr (str ''hello''))" by (simp add: str_def)
  have n1: "test_remote (Some ?ok) None (request_init test_env (read_url test_env) no_options)
              (remote test_world) = (Some ?ok, 0)"
    by (simp add: test_read test_world_def)
  have k1: "reply_ok ?ok" by (simp add: reply_ok_def)
  have j1: "JSON_parse test_platform (reply_text ?ok) = Some (JObj [])"
    by (simp add: test_platform_def test_documents_def str_def)
  have g1: "get_prop (JObj []) (str ''sha'') = Inr JUndefined" by simp
  have 1: "fst (handleUpdate test_platform (test_remote (Some ?ok) None) ?req test_env test_world)
             = Inl (Error (str ''File not found or no permission''))"
    by (simp add: handleUpdate_read [where net = "test_remote (Some ?ok) None" and w = test_world,
            OF test_update_request(1,2,3) c n1 k1 j1 g1])
  have 2: "str ''File not found or no permission'' \<noteq> str ''file not found or no permission''"
    by (simp add: str_def)
  let ?w0 = "test_world\<lparr>events := events test_world @ [Parsed (req_text ?req)]\<rparr>"
  have n2: "test_remote (Some ?nf) None (request_init test_env (read_url test_env) no_options)
              (remote ?w0) = (Some ?nf, 0)"
    by (simp add: test_read test_world_def)
  have j2: "JSON_parse test_platform (reply_text ?nf) = Some (JObj [(str ''message'', JStr (str ''Not Found''))])"
    by (simp add: test_platform_def test_documents_def str_def)
  have k2: "\<not> reply_ok ?nf" by (simp add: reply_ok_def)
  obtain w1 where s: "safeGitHubRequest test_platform (test_remote (Some ?nf) None)
                        (read_url test_env) test_env no_options ?w0
          = (Inl (Error (apiError_message test_platform 404
                           (JObj [(str ''message'', JStr (str ''Not Found''))]))), w1)"
    using safeGitHubRequest_reply
            [where net = "test_remote (Some ?nf) None" and w = ?w0 and P = test_platform, OF n2]
          j2 k2
    by simp
  have b: "io_bind (safeGitHubRequest test_platform (test_remote (Some ?nf) None)
                      (read_url test_env) test_env no_options) f ?w0
          = (Inl (Error (apiError_message test_platform 404
                           (JObj [(str ''message'', JStr (str ''Not Found''))]))), w1)" for f
    by (simp add: io_bind_def s)
  have 3: "fst (handleUpdate test_platform (test_remote (Some ?nf) None) ?req test_env test_world)
             = Inl (Error (apiError_message test_platform 404
                             (JObj [(str ''message'', JStr (str ''Not Found''))])))"
    using c
    by (simp only: handleUpdate_parsed [OF test_update_request(1,2,3)] b not_True_eq_False
          if_False fst_conv)
  have 4: "apiError_message test_platform 404 (JObj [(str ''message'', JStr (str ''Not Found''))])
             \<noteq> str ''file not found or no permission''"
    and 5: "apiError_message test_platform 404 (JObj [(str ''message'', JStr (str ''Not Found''))])
             \<noteq> str ''File not found or no permission''"
    by (simp_all add: apiError_message_def str_def)
  let ?nu = "\<lparr>reply_status = 200, reply_text = str ''null''\<rparr>"
  have n3: "test_remote (Some ?nu) None (request_init test_env (read_url test_env) no_options)
              (remote ?w0) = (Some ?nu, 0)"
    by (simp add: test_read test_world_def)
  have j3: "JSON_parse test_platform (reply_text ?nu) = Some JNull"
    by (simp add: test_platform_def test_documents_def str_def)
  have k3: "reply_ok ?nu" by (simp add: reply_ok_def)
  obtain w3 where s3: "safeGitHubRequest test_platform (test_remote (Some ?nu) None)
                        (read_url test_env) test_env no_options ?w0 = (Inr JNull, w3)"
    using safeGitHubRequest_reply
            [where net = "test_remote (Some ?nu) None" and w = ?w0 and P = test_platform, OF n3]
          j3 k3
    by simp
  have g3: "get_prop JNull (str ''sha'') = Inl TypeError" by simp
  have 6: "fst (handleUpdate test_platform (test_remote (Some ?nu) None) ?req test_env test_world)
             = Inl TypeError"
    by (simp add: handleUpdate_sha_throws [OF test_update_request(1,2,3) c s3 g3])
  from 1 2 3 4 5 6 show ?thesis by blast
qed


theorem handleUpdate_no_sha_witness:
  \<open>handleUpdate test_platform
      (test_remote (Some \<lparr>reply_status = 200, reply_text = str ''{}''\<rparr>) None)
      (test_request (str ''POST'') (str ''/update'') None (str ''{"content":"hello"}''))
      test_env test_world
    = (Inl (Error (str ''File not found or no permission'')),
       \<lparr>remote = 0,
        events = [Parsed (str ''{"content":"hello"}''),
                  Fetched (request_init test_env (read_url test_env) no_options),
                  Parsed (str ''{}'')]\<rparr>)
   \<and> call_method (request_init test_env (read_url test_env) no_options) = None
   \<and> fst (worker_fetch test_platform
          (test_remote (Some \<lparr>reply_status = 200, reply_text = str ''{}''\<rparr>) None)
          (test_request (str ''POST'') (str ''/update'') None (str ''{"content":"hello"}''))
          test_env test_world)
      = \<lparr>status = 500,
         headers = [(str ''Content-Type'', str ''application/json'')],
         body = Some (str ''{"error":"File not found or no permission"}'')\<rparr>
   \<and> snd (handleUpdate test_platform
          (test_remote (Some \<lparr>reply_status = 404, reply_text = str ''{"message":"Not Found"}''\<rparr>) None)
          (test_request (str ''POST'') (str ''/update'') None (str ''{"content":"hello"}''))
          test_env test_world)
      = \<lparr>remote = 0,
         events = [Parsed (str ''{"content":"hello"}''),
                   Fetched (request_init test_env (read_url test_env) no_options),
                   Parsed (str ''{"message":"Not Found"}'')]\<rparr>
   \<and> snd (handleUpdate test_platform (test_remote None None)
          (test_request (str ''POST'') (str ''/update'') None (str ''{"content":"hello"}''))
          test_env test_world)
      = \<lparr>remote = 0,
         events = [Parsed (str ''{"content":"hello"}''),
                   Fetched (request_init test_env (read_url test_env) no_options)]\<rparr>\<close>
proof -
  let ?req = \<open>test_request (str ''POST'') (str ''/update'') None (str ''{"content":"hello"}'')\<close>
  let ?ok = "\<lparr>reply_status = 200, reply_text = str ''{}''\<rparr>"
  let ?nf = \<open>\<lparr>reply_status = 404, reply_text = str ''{"message":"Not Found"}''\<rparr>\<close>
  have c: "ToBoolean (JStr (str ''hello''))" by (simp add: str_def)
  have n1: "test_remote (Some ?ok) None (request_init test_env (read_url test_env) no_options)
              (remote test_world) = (Some ?ok, 0)"
    by (simp add: test_read test_world_def)
  have n2: "test_remote (Some ?nf) None (request_init test_env (read_url test_env) no_options)
              (remote test_world) = (Some ?nf, 0)"
    by (simp add: test_read test_world_def)
  have n3: "test_remote None None (request_init test_env (read_url test_env) no_options)
              (remote test_world) = (None, 0)"
    by (simp add: test_remote_def request_init_read test_world_def)
  have k1: "reply_ok ?ok" by (simp add: reply_ok_def)
  have j1: "JSON_parse test_platform (reply_text ?ok) = Some (JObj [])"
    by (simp add: test_platform_def test_documents_def str_def)
  have g1: "get_prop (JObj []) (str ''sha'') = Inr JUndefined" by simp
  have q1: "\<forall>r d s. Some ?ok = Some r \<and> reply_ok r \<and> JSON_parse test_platform (reply_text r) = Some d
                   \<and> get_prop d (str ''sha'') = Inr s \<longrightarrow> \<not> ToBoolean s"
    using j1 by auto
  have q2: "\<forall>r d s. Some ?nf = Some r \<and> reply_ok r \<and> JSON_parse test_platform (reply_text r) = Some d
                   \<and> get_prop d (str ''sha'') = Inr s \<longrightarrow> \<not> ToBoolean s"
    by (auto simp: reply_ok_def)
  have q3: "\<forall>r d s. (None :: reply option) = Some r \<and> reply_ok r
                   \<and> JSON_parse test_platform (reply_text r) = Some d
                   \<and> get_prop d (str ''sha'') = Inr s \<longrightarrow> \<not> ToBoolean s"
    by simp
  have p: "req_pathname ?req = str ''/update''"
    by (simp add: test_request_def)
  have b: \<open>JSON_stringify test_platform
             (JObj [(str ''error'', JStr (str ''File not found or no permission''))])
           = Some (str ''{"error":"File not found or no permission"}'')\<close>
    by (simp add: JSON_stringify_def test_platform_def test_render_def test_documents_def str_def)
  note c4 = handleUpdate_no_sha [where P = test_platform and w = test_world and env = test_env,
              OF test_update_request(1,2,3) c]
  from c4 [where net = "test_remote (Some ?ok) None" and r = ?ok and fileData = "JObj []"
             and sha = JUndefined, OF n1 q1] k1 j1 g1 p
  have 1: "handleUpdate test_platform (test_remote (Some ?ok) None) ?req test_env test_world
             = (Inl (Error (str ''File not found or no permission'')),
                \<lparr>remote = 0,
                 events = events test_world @ [Parsed (req_text ?req),
                            Fetched (request_init test_env (read_url test_env) no_options),
                            Parsed (reply_text ?ok)]\<rparr>)"
    and 2: "call_method (request_init test_env (read_url test_env) no_options) = None"
    and 3: "fst (worker_fetch test_platform (test_remote (Some ?ok) None) ?req test_env test_world)
             = \<lparr>status = 500,
                headers = [(str ''Content-Type'', str ''application/json'')],
                body = JSON_stringify test_platform
                         (JObj [(str ''error'', JStr (str ''File not found or no permission''))])\<rparr>"
    by blast+
  from c4 [where net = "test_remote (Some ?nf) None", OF n2 q2]
  have 4: "snd (handleUpdate test_platform (test_remote (Some ?nf) None) ?req test_env test_world)
             = \<lparr>remote = 0,
                events = events test_world @ [Parsed (req_text ?req),
                           Fetched (request_init test_env (read_url test_env) no_options)]
                         @ [Parsed (reply_text ?nf)]\<rparr>"
    by simp
  from c4 [where net = "test_remote None None", OF n3 q3]
  have 5: "snd (handleUpdate test_platform (test_remote None None) ?req test_env test_world)
             = \<lparr>remote = 0,
                events = events test_world @ [Parsed (req_text ?req),
                           Fetched (request_init test_env (read_url test_env) no_options)]\<rparr>"
    by simp
  from 1 2 3 4 5 show ?thesis
    unfolding test_update_request(4) b by (simp add: test_world_def)
qed

lemma get_prop_optional_eq:
  "get_prop_optional v name =
     Inr (if v = JUndefined \<or> v = JNull then JUndefined else property v name)"
  by (simp add: get_prop_optional_def get_prop_property)

lemma JSON_stringify_update_object_undefined:
  "JSON_stringify P (JObj [(str ''message'', JStr (str ''Update triggered'')), (str ''commit'', JUndefined)])
     = JSON_stringify P (JObj [(str ''message'', JStr (str ''Update triggered''))])"
  by (simp add: JSON_stringify_def)

lemma handleUpdate_write:
  assumes "req_method request = str ''POST''" "JSON_parse P (req_text request) = Some v"
    "get_prop v (str ''content'') = Inr (JStr c)" "c \<noteq> []" "well_formed c"
    "net (request_init env (read_url env) no_options) (remote w) = (Some r1, s1)"
    "reply_ok r1" "JSON_parse P (reply_text r1) = Some fileData"
    "get_prop fileData (str ''sha'') = Inr s" "ToBoolean s"
  shows "handleUpdate P net request env w =
        io_bind
          (safeGitHubRequest P net (write_url env) env
             (write_options P env (base64 (TextEncoder_encode c)) s))
          (\<lambda>updateResult.
             io_bind (io_of (get_prop updateResult (str ''commit''))) (\<lambda>commit.
             io_bind (io_of (get_prop_optional commit (str ''sha''))) (\<lambda>commit_sha.
             io_of (Inr (jsonResponse P (update_object commit_sha) 200)))))
          \<lparr>remote = s1,
           events = events w @ [Parsed (req_text request),
                                Fetched (request_init env (read_url env) no_options),
                                Parsed (reply_text r1)]\<rparr>"
proof -
  have t: "ToBoolean (JStr c)" using assms(4) by simp
  show ?thesis
    using assms(10)
    by (simp add: handleUpdate_read [where net = net and w = w, OF assms(1,2,3) t assms(6,7,8,9)]
          base64Encode_text [OF assms(5)] io_bind_Inr)
qed

lemma after_write_frame:
  "snd (io_bind (io_of (get_prop updateResult (str ''commit''))) (\<lambda>commit.
        io_bind (io_of (get_prop_optional commit (str ''sha''))) (\<lambda>commit_sha.
        io_of (Inr (jsonResponse P (update_object commit_sha) 200)))) w) = w"
  by (simp add: io_bind_def io_of_def get_prop_optional_eq split: sum.split)

lemma snd_io_bind_frame:
  assumes "\<And>x w'. snd (K x w') = w'"
  shows "snd (io_bind m K w) = snd (m w)"
  using assms by (simp add: io_bind_def split: prod.split sum.split)

text \<open>
  C3. In a run of the Update Flow on a POST whose body holds a non-empty text \<open>c\<close> as
  \<^verbatim>\<open>content\<close>, when the remote read succeeds and returns the \<^verbatim>\<open>sha\<close> \<open>s\<close>: the run makes
  exactly two calls to the remote API, the read and then one \<^verbatim>\<open>PUT\<close>, whose body is the
  JSON text of the fixed commit message, the base64 of the UTF-8 octets of \<open>c\<close>, \<open>s\<close>
  and the configured branch. When that write is answered with a success status and a
  JSON value \<open>u\<close> other than \<^verbatim>\<open>null\<close>, the flow answers with status 200 and
  \<^verbatim>\<open>{message: "Update triggered", commit: u.commit?.sha}\<close>; the \<^verbatim>\<open>commit\<close> property is
  left out of the JSON text when \<open>u\<close> has no commit (or one without a \<^verbatim>\<open>sha\<close>).
\<close>

theorem handleUpdate_writes_once:
  assumes "req_method request = str ''POST''"
    and "JSON_parse P (req_text request) = Some v"
    and "get_prop v (str ''content'') = Inr (JStr c)" "c \<noteq> []" "well_formed c"
    and "net (request_init env (read_url env) no_options) (remote w) = (Some r1, s1)"
    and "reply_ok r1" "JSON_parse P (reply_text r1) = Some fileData"
    and "get_prop fileData (str ''sha'') = Inr s" "ToBoolean s"
    and "net \<lparr>call_url = write_url env,
              call_method = Some (str ''PUT''),
              call_headers =
                [(str ''Authorization'', str ''Bearer '' @ GH_TOKEN env),
                 (str ''Accept'', str ''application/vnd.github+json''),
                 (str ''Content-Type'', str ''application/json''),
                 (str ''User-Agent'', str ''cloudflare-worker'')],
              call_body =
                JSON_stringify P
                  (JObj [(str ''message'', JStr (str ''auto update images.txt'')),
                         (str ''content'', JStr (base64 (TextEncoder_encode c))),
                         (str ''sha'', s),
                         (str ''branch'', JStr (BRANCH env))])\<rparr>
            s1 = (reply2, s2)"
  shows "events (snd (handleUpdate P net request env w)) =
           events w @
           [Parsed (req_text request),
            Fetched \<lparr>call_url = read_url env,
                     call_method = None,
                     call_headers =
                       [(str ''Authorization'', str ''Bearer '' @ GH_TOKEN env),
                        (str ''Accept'', str ''application/vnd.github+json''),
                        (str ''Content-Type'', str ''application/json''),
                        (str ''User-Agent'', str ''cloudflare-worker'')],
                     call_body = None\<rparr>,
            Parsed (reply_text r1),
            Fetched \<lparr>call_url = write_url env,
                     call_method = Some (str ''PUT''),
                     call_headers =
                       [(str ''Authorization'', str ''Bearer '' @ GH_TOKEN env),
                        (str ''Accept'', str ''application/vnd.github+json''),
                        (str ''Content-Type'', str ''application/json''),
                        (str ''User-Agent'', str ''cloudflare-worker'')],
                     call_body =
                       JSON_stringify P
                         (JObj [(str ''message'', JStr (str ''auto update images.txt'')),
                                (str ''content'', JStr (base64 (TextEncoder_encode c))),
                                (str ''sha'', s),
                                (str ''branch'', JStr (BRANCH env))])\<rparr>]
           @ (case reply2 of None \<Rightarrow> [] | Some r2 \<Rightarrow> [Parsed (reply_text r2)])
         \<and> remote (snd (handleUpdate P net request env w)) = s2
         \<and> (reply2 = Some r2 \<and> reply_ok r2 \<and> JSON_parse P (reply_text r2) = Some u
              \<and> u \<noteq> JNull \<and> u \<noteq> JUndefined \<longrightarrow>
            fst (handleUpdate P net request env w) =
              Inr \<lparr>status = 200,
                   headers = [(str ''Content-Type'', str ''application/json'')],
                   body =
                     JSON_stringify P
                       (JObj [(str ''message'', JStr (str ''Update triggered'')),
                              (str ''commit'',
                                 if property u (str ''commit'') = JUndefined
                                    \<or> property u (str ''commit'') = JNull
                                 then JUndefined
                                 else property (property u (str ''commit'')) (str ''sha''))])\<rparr>)
         \<and> JSON_stringify P
               (JObj [(str ''message'', JStr (str ''Update triggered'')), (str ''commit'', JUndefined)])
             = JSON_stringify P (JObj [(str ''message'', JStr (str ''Update triggered''))])"
proof -
  let ?w1 = "\<lparr>remote = s1,
              events = events w @ [Parsed (req_text request),
                                   Fetched (request_init env (read_url env) no_options),
                                   Parsed (reply_text r1)]\<rparr>"
  let ?opts = "write_options P env (base64 (TextEncoder_encode c)) s"
  let ?put = "request_init env (write_url env) ?opts"
  note hu = handleUpdate_write [where net = net and w = w, OF assms(1-10)]
  have n: "net ?put (remote ?w1) = (reply2, s2)"
    using assms(11) by (simp add: request_init_write)
  show ?thesis
  proof (cases reply2)
    case None
    with n have "net ?put (remote ?w1) = (None, s2)" by simp
    from safeGitHubRequest_rejected [where net = net and w = ?w1 and P = P, OF this]
    show ?thesis
      using None
      by (simp add: hu io_bind_def request_init_read request_init_write
            JSON_stringify_update_object_undefined)
  next
    case (Some r2)
    with n have "net ?put (remote ?w1) = (Some r2, s2)" by simp
    note sg = safeGitHubRequest_reply [where net = net and w = ?w1 and P = P, OF this]
    have w: "snd (handleUpdate P net request env w)
               = \<lparr>remote = s2, events = events ?w1 @ [Fetched ?put, Parsed (reply_text r2)]\<rparr>"
      by (simp add: hu snd_io_bind_frame [OF after_write_frame] sg)
    have r: "fst (handleUpdate P net request env w) =
              Inr (jsonResponse P
                     (update_object
                        (if property u (str ''commit'') = JUndefined
                            \<or> property u (str ''commit'') = JNull
                         then JUndefined
                         else property (property u (str ''commit'')) (str ''sha'')))
                     200)"
      if "reply_ok r2" "JSON_parse P (reply_text r2) = Some u" "u \<noteq> JNull" "u \<noteq> JUndefined"
      using that
      by (simp add: hu io_bind_def sg io_of_def get_prop_property get_prop_optional_eq)
    show ?thesis
      using Some r
      by (simp add: w request_init_read request_init_write jsonResponse_def update_object_def
            JSON_stringify_update_object_undefined)
  qed
qed

theorem handleUpdate_writes_once_witness:
  \<open>fst (handleUpdate test_platform
          (test_remote (Some \<lparr>reply_status = 200, reply_text = str ''{"sha":"abc"}''\<rparr>)
                       (Some \<lparr>reply_status = 200, reply_text = str ''{"commit":{"sha":"def"}}''\<rparr>))
          (test_request (str ''POST'') (str ''/update'') None (str ''{"content":"hello"}''))
          test_env test_world)
     = Inr \<lparr>status = 200,
            headers = [(str ''Content-Type'', str ''application/json'')],
            body = Some (str ''{"message":"Update triggered","commit":"def"}'')\<rparr>
   \<and> remote (snd (handleUpdate test_platform
          (test_remote (Some \<lparr>reply_status = 200, reply_text = str ''{"sha":"abc"}''\<rparr>)
                       (Some \<lparr>reply_status = 200, reply_text = str ''{"commit":{"sha":"def"}}''\<rparr>))
          (test_request (str ''POST'') (str ''/update'') None (str ''{"content":"hello"}''))
          test_env test_world)) = 1
   \<and> events (snd (handleUpdate test_platform
          (test_remote (Some \<lparr>reply_status = 200, reply_text = str ''{"sha":"abc"}''\<rparr>)
                       (Some \<lparr>reply_status = 200, reply_text = str ''{"commit":{"sha":"def"}}''\<rparr>))
          (test_request (str ''POST'') (str ''/update'') None (str ''{"content":"hello"}''))
          test_env test_world))
     = [Parsed (str ''{"content":"hello"}''),
        Fetched \<lparr>call_url = str ''https://api.github.com/repos/o/r/contents/images.txt?ref=main'',
                 call_method = None,
                 call_headers =
                   [(str ''Authorization'', str ''Bearer t''),
                    (str ''Accept'', str ''application/vnd.github+json''),
                    (str ''Content-Type'', str ''application/json''),
                    (str ''User-Agent'', str ''cloudflare-worker'')],
                 call_body = None\<rparr>,
        Parsed (str ''{"sha":"abc"}''),
        Fetched \<lparr>call_url = str ''https://api.github.com/repos/o/r/contents/images.txt'',
                 call_method = Some (str ''PUT''),
                 call_headers =
                   [(str ''Authorization'', str ''Bearer t''),
                    (str ''Accept'', str ''application/vnd.github+json''),
                    (str ''Content-Type'', str ''application/json''),
                    (str ''User-Agent'', str ''cloudflare-worker'')],
                 call_body =
                   Some (str ''{"message":"auto update images.txt","content":"aGVsbG8=","sha":"abc","branch":"main"}'')\<rparr>,
        Parsed (str ''{"commit":{"sha":"def"}}'')]\<close>
proof -
  let ?r1 = \<open>\<lparr>reply_status = 200, reply_text = str ''{"sha":"abc"}''\<rparr>\<close>
  let ?r2 = \<open>\<lparr>reply_status = 200, reply_text = str ''{"commit":{"sha":"def"}}''\<rparr>\<close>
  let ?net = "test_remote (Some ?r1) (Some ?r2)"
  let ?u = "JObj [(str ''commit'', JObj [(str ''sha'', JStr (str ''def''))])]"
  have c: "str ''hello'' \<noteq> []" by (simp add: str_def)
  have wf: "well_formed (str ''hello'')"
    by (simp add: str_def is_high_surrogate_def is_low_surrogate_def)
  have n1: "?net (request_init test_env (read_url test_env) no_options) (remote test_world)
              = (Some ?r1, 0)"
    by (simp add: test_read test_world_def)
  have k: "reply_ok ?r1" "reply_ok ?r2" by (simp_all add: reply_ok_def)
  have j1: "JSON_parse test_platform (reply_text ?r1) = Some (JObj [(str ''sha'', JStr (str ''abc''))])"
    and j2: "JSON_parse test_platform (reply_text ?r2) = Some ?u"
    by (simp_all add: test_platform_def test_documents_def str_def)
  have g: "get_prop (JObj [(str ''sha'', JStr (str ''abc''))]) (str ''sha'') = Inr (JStr (str ''abc''))"
    by simp
  have s: "ToBoolean (JStr (str ''abc''))" by (simp add: str_def)
  have e: "base64 (TextEncoder_encode (str ''hello'')) = str ''aGVsbG8=''"
    by (simp add: encode_eval base64_char_def)
  have n2: "?net \<lparr>call_url = write_url test_env,
              call_method = Some (str ''PUT''),
              call_headers =
                [(str ''Authorization'', str ''Bearer '' @ GH_TOKEN test_env),
                 (str ''Accept'', str ''application/vnd.github+json''),
                 (str ''Content-Type'', str ''application/json''),
                 (str ''User-Agent'', str ''cloudflare-worker'')],
              call_body =
                JSON_stringify test_platform
                  (JObj [(str ''message'', JStr (str ''auto update images.txt'')),
                         (str ''content'', JStr (base64 (TextEncoder_encode (str ''hello'')))),
                         (str ''sha'', JStr (str ''abc'')),
                         (str ''branch'', JStr (BRANCH test_env))])\<rparr>
            0 = (Some ?r2, 1)"
    by (simp add: test_remote_def)
  have u: "?u \<noteq> JNull" "?u \<noteq> JUndefined" by simp_all
  have p: "property ?u (str ''commit'') = JObj [(str ''sha'', JStr (str ''def''))]"
    "property (JObj [(str ''sha'', JStr (str ''def''))]) (str ''sha'') = JStr (str ''def'')"
    by (simp_all add: property_def)
  have b1: \<open>JSON_stringify test_platform
              (JObj [(str ''message'', JStr (str ''auto update images.txt'')),
                     (str ''content'', JStr (str ''aGVsbG8='')),
                     (str ''sha'', JStr (str ''abc'')),
                     (str ''branch'', JStr (BRANCH test_env))])
            = Some (str ''{"message":"auto update images.txt","content":"aGVsbG8=","sha":"abc","branch":"main"}'')\<close>
    and b2: \<open>JSON_stringify test_platform
              (JObj [(str ''message'', JStr (str ''Update triggered'')), (str ''commit'', JStr (str ''def''))])
            = Some (str ''{"message":"Update triggered","commit":"def"}'')\<close>
    by (simp_all add: JSON_stringify_def test_platform_def test_render_def test_documents_def
          test_env_def str_def)
  have url: \<open>read_url test_env = str ''https://api.github.com/repos/o/r/contents/images.txt?ref=main''\<close>
    \<open>write_url test_env = str ''https://api.github.com/repos/o/r/contents/images.txt''\<close>
    \<open>str ''Bearer '' @ GH_TOKEN test_env = str ''Bearer t''\<close>
    by (simp_all add: read_url_def write_url_def test_env_def str_def)
  note c3 = handleUpdate_writes_once
              [where net = ?net and w = test_world and P = test_platform and env = test_env
                 and ?r2.0 = ?r2 and u = ?u,
               OF test_update_request(1,2,3) c wf n1 k(1) j1 g s n2]
  from c3 k(2) j2 u show ?thesis
    unfolding e p b1 url test_update_request(4)
    by (simp add: test_world_def b2)
qed

theorem handleUpdate_writes_once_counterexample:
  \<open>fst (handleUpdate test_platform
          (test_remote (Some \<lparr>reply_status = 200, reply_text = str ''{"sha":"abc"}''\<rparr>)
                       (Some \<lparr>reply_status = 409, reply_text = str ''{}''\<rparr>))
          (test_request (str ''POST'') (str ''/update'') None (str ''{"content":"hello"}''))
          test_env test_world)
     = Inl (Error (apiError_message test_platform 409 (JObj [])))
   \<and> status (fst (worker_fetch test_platform
          (test_remote (Some \<lparr>reply_status = 200, reply_text = str ''{"sha":"abc"}''\<rparr>)
                       (Some \<lparr>reply_status = 409, reply_text = str ''{}''\<rparr>))
          (test_request (str ''POST'') (str ''/update'') None (str ''{"content":"hello"}''))
          test_env test_world)) = 500
   \<and> fst (handleUpdate test_platform
          (test_remote (Some \<lparr>reply_status = 200, reply_text = str ''{"sha":"abc"}''\<rparr>)
                       (Some \<lparr>reply_status = 200, reply_text = str ''null''\<rparr>))
          (test_request (str ''POST'') (str ''/update'') None (str ''{"content":"hello"}''))
          test_env test_world)
     = Inl TypeError\<close>
proof -
  let ?r1 = \<open>\<lparr>reply_status = 200, reply_text = str ''{"sha":"abc"}''\<rparr>\<close>
  let ?r2 = \<open>\<lparr>reply_status = 409, reply_text = str ''{}''\<rparr>\<close>
  let ?net = "test_remote (Some ?r1) (Some ?r2)"
  let ?req = \<open>test_request (str ''POST'') (str ''/update'') None (str ''{"content":"hello"}'')\<close>
  let ?w1 = "\<lparr>remote = 0,
              events = events test_world @
                [Parsed (req_text ?req),
                 Fetched (request_init test_env (read_url test_env) no_options),
                 Parsed (reply_text ?r1)]\<rparr>"
  let ?opts = "write_options test_platform test_env (base64 (TextEncoder_encode (str ''hello'')))
                 (JStr (str ''abc''))"
  have c: "str ''hello'' \<noteq> []" by (simp add: str_def)
  have wf: "well_formed (str ''hello'')"
    by (simp add: str_def is_high_surrogate_def is_low_surrogate_def)
  have n1: "?net (request_init test_env (read_url test_env) no_options) (remote test_world)
              = (Some ?r1, 0)"
    by (simp add: test_read test_world_def)
  have k1: "reply_ok ?r1" and k2: "\<not> reply_ok ?r2" by (simp_all add: reply_ok_def)
  have j1: "JSON_parse test_platform (reply_text ?r1) = Some (JObj [(str ''sha'', JStr (str ''abc''))])"
    and j2: "JSON_parse test_platform (reply_text ?r2) = Some (JObj [])"
    by (simp_all add: test_platform_def test_documents_def str_def)
  have g: "get_prop (JObj [(str ''sha'', JStr (str ''abc''))]) (str ''sha'') = Inr (JStr (str ''abc''))"
    by simp
  have s: "ToBoolean (JStr (str ''abc''))" by (simp add: str_def)
  have n2: "?net (request_init test_env (write_url test_env) ?opts) (remote ?w1) = (Some ?r2, 1)"
    by (simp add: test_remote_def request_init_write)
  obtain w2 where sg: "safeGitHubRequest test_platform ?net (write_url test_env) test_env ?opts ?w1
                         = (Inl (Error (apiError_message test_platform 409 (JObj []))), w2)"
    using safeGitHubRequest_reply [where net = ?net and w = ?w1 and P = test_platform, OF n2] j2 k2
    by simp
  have 1: "handleUpdate test_platform ?net ?req test_env test_world
             = (Inl (Error (apiError_message test_platform 409 (JObj []))), w2)"
    by (simp only: handleUpdate_write [where net = ?net and w = test_world,
                     OF test_update_request(1,2,3) c wf n1 k1 j1 g s] io_bind_def sg
          prod.case sum.case)
  have p: "req_pathname ?req = str ''/update''" by (simp add: test_request_def)
  let ?r3 = "\<lparr>reply_status = 200, reply_text = str ''null''\<rparr>"
  let ?net3 = "test_remote (Some ?r1) (Some ?r3)"
  have m1: "?net3 (request_init test_env (read_url test_env) no_options) (remote test_world)
              = (Some ?r1, 0)"
    by (simp add: test_read test_world_def)
  have m2: "?net3 (request_init test_env (write_url test_env) ?opts) (remote ?w1) = (Some ?r3, 1)"
    by (simp add: test_remote_def request_init_write)
  have j3: "JSON_parse test_platform (reply_text ?r3) = Some JNull"
    by (simp add: test_platform_def test_documents_def str_def)
  have k3: "reply_ok ?r3" by (simp add: reply_ok_def)
  obtain w3 where sg3: "safeGitHubRequest test_platform ?net3 (write_url test_env) test_env ?opts ?w1
                         = (Inr JNull, w3)"
    using safeGitHubRequest_reply [where net = ?net3 and w = ?w1 and P = test_platform, OF m2] j3 k3
    by simp
  have 2: "handleUpdate test_platform ?net3 ?req test_env test_world = (Inl TypeError, w3)"
    by (simp only: handleUpdate_write [where net = ?net3 and w = test_world,
                     OF test_update_request(1,2,3) c wf m1 k1 j1 g s] io_bind_def sg3
          prod.case sum.case io_of_def get_prop.simps)
  from 1 2 show ?thesis
    by (simp add: worker_fetch_update [OF p] jsonResponse_def)
qed

end
